theory Spec2Isabelle
  imports Complex_Main "HOL-Library.Word" "HOL-Library.Sublist" "HOL-Library.Log_Nat"
begin

section \<open>JavaScript strings\<close>

text \<open>
  A JavaScript string is a sequence of UTF-16 code units; \<open>length\<close>, \<open>slice\<close>, \<open>trim\<close> and a
  regular expression without the \<open>u\<close> flag all work on code units. A string is therefore a
  list of 16-bit words, and \<open>js\<close> turns an ASCII literal into one.
\<close>

type_synonym jsstring = "16 word list"

definition js :: "string \<Rightarrow> jsstring" where
  "js s = map of_char s"

text \<open>
  \<open>String.prototype.trim\<close> removes the WhiteSpace and LineTerminator code points of the
  language definition from both ends.
\<close>

definition isWhiteSpace :: "16 word \<Rightarrow> bool" where
  "isWhiteSpace c \<longleftrightarrow>
     c = 0x09 \<or> c = 0x0A \<or> c = 0x0B \<or> c = 0x0C \<or> c = 0x0D \<or> c = 0x20 \<or> c = 0xA0 \<or>
     c = 0x1680 \<or> (0x2000 \<le> c \<and> c \<le> 0x200A) \<or> c = 0x2028 \<or> c = 0x2029 \<or>
     c = 0x202F \<or> c = 0x205F \<or> c = 0x3000 \<or> c = 0xFEFF"

definition trim :: "jsstring \<Rightarrow> jsstring" where
  "trim s = rev (dropWhile isWhiteSpace (rev (dropWhile isWhiteSpace s)))"

text \<open>\<open>a || b\<close> on strings: the empty string is falsy.\<close>

definition or_else :: "jsstring \<Rightarrow> jsstring \<Rightarrow> jsstring" where
  "or_else a b = (if a = [] then b else a)"

section \<open>Artifact naming: \<open>sanitizeForFileSystem\<close>\<close>

text \<open>
  \<^verbatim>\<open>
  const sanitizeForFileSystem = (value: string) => {
    const fallback = "child";
    const clean = value.trim().replace(/[^a-z0-9-_]+/gi, "_");
    return clean.length ? clean.slice(0, 40) : fallback;
  };
  \<close>
  \<open>in_class\<close> is the character class \<open>[a-z0-9-_]\<close> under the \<open>i\<close> flag: without the
  \<open>u\<close> flag no code unit above 127 is folded onto an ASCII letter, so the class holds the
  ASCII letters of both cases, the digits, the hyphen and the underscore. The pattern
  \<open>[^a-z0-9-_]+\<close> is greedy, so with the \<open>g\<close> flag every match is a maximal run of code
  units outside the class, and \<open>replace_runs\<close> puts one underscore for each match.
\<close>

definition in_class :: "16 word \<Rightarrow> bool" where
  "in_class c \<longleftrightarrow>
     (0x61 \<le> c \<and> c \<le> 0x7A) \<or> (0x41 \<le> c \<and> c \<le> 0x5A) \<or>
     (0x30 \<le> c \<and> c \<le> 0x39) \<or> c = 0x2D \<or> c = 0x5F"

function replace_runs :: "jsstring \<Rightarrow> jsstring" where
  "replace_runs [] = []"
| "replace_runs (c # cs) =
     (if \<not> in_class c then 0x5F # replace_runs (dropWhile (\<lambda>d. \<not> in_class d) cs)
      else c # replace_runs cs)"
  by pat_completeness auto
termination
  by (relation "measure length") (auto simp: length_dropWhile_le less_Suc_eq_le)

definition sanitizeForFileSystem :: "jsstring \<Rightarrow> jsstring" where
  "sanitizeForFileSystem v =
     (let fallback = js ''child'';
          clean = replace_runs (trim v)
      in if length clean \<noteq> 0 then take 40 clean else fallback)"

text \<open>
  The naming rule in the words of the specification: every code unit outside the class
  becomes one underscore, the result is cut to 40 code units, and the default name stands
  in for an empty result.
\<close>

definition spec_artifact_name :: "jsstring \<Rightarrow> jsstring" where
  "spec_artifact_name fullName =
     (let sanitized = take 40 (map (\<lambda>c. if in_class c then c else 0x5F) fullName)
      in if sanitized = [] then js ''child'' else sanitized)"

text \<open>
  The rule the code follows, stated without reference to matching: a code unit of the class
  is kept; a code unit outside it gives an underscore when it ends its run and nothing
  otherwise.
\<close>

fun underscore_runs :: "jsstring \<Rightarrow> jsstring" where
  "underscore_runs [] = []"
| "underscore_runs [c] = [if in_class c then c else 0x5F]"
| "underscore_runs (c # d # cs) =
     (if in_class c then c # underscore_runs (d # cs)
      else if in_class d then 0x5F # underscore_runs (d # cs)
      else underscore_runs (d # cs))"

section \<open>Numbers and the conversion \<open>Number(value)\<close>\<close>

text \<open>
  A JavaScript number is a binary64 value: \<open>NaN\<close>, an infinity or a finite value. Every
  finite binary64 value is a rational, and the comparisons of the validator agree with
  those of the rationals, so a finite number is modelled by its exact value (the sign of
  zero is not kept).
\<close>

datatype jsnum = NaN | Fin rat | PosInfinity | NegInfinity

fun negate :: "jsnum \<Rightarrow> jsnum" where
  "negate NaN = NaN"
| "negate (Fin q) = Fin (- q)"
| "negate PosInfinity = NegInfinity"
| "negate NegInfinity = PosInfinity"

text \<open>
  The number value of a mathematical value: the nearest binary64 value, a tie going to the
  value with the even significand, and an infinity when the rounded value reaches
  \<open>2^1024\<close>. For a positive \<open>x\<close> with \<open>2^e \<le> x < 2^(e+1)\<close> the binary64 values around
  \<open>x\<close> are the multiples of \<open>2^(e - 52)\<close>, and of \<open>2^(-1074)\<close> below the normal range.
\<close>

definition floor_log2 :: "rat \<Rightarrow> int" where
  "floor_log2 x = (if 1 \<le> x then bitlen \<lfloor>x\<rfloor> - 1 else - bitlen (\<lceil>1 / x\<rceil> - 1))"

definition round_half_even :: "rat \<Rightarrow> int" where
  "round_half_even m =
     (let f = \<lfloor>m\<rfloor>; r = m - of_int f
      in if r < 1 / 2 then f else if 1 / 2 < r then f + 1 else if even f then f else f + 1)"

definition round_positive :: "rat \<Rightarrow> jsnum" where
  "round_positive x =
     (let e = max (floor_log2 x) (- 1022);
          ulp = 2 powi (e - 52);
          v = of_int (round_half_even (x / ulp)) * ulp
      in if 2 powi 1024 \<le> v then PosInfinity else Fin v)"

definition binary64 :: "rat \<Rightarrow> jsnum" where
  "binary64 x =
     (if x = 0 then Fin 0
      else if 0 < x then round_positive x
      else negate (round_positive (- x)))"

text \<open>The values a form field can hold before validation.\<close>

datatype jsval = Undefined | Null | Bool bool | Str jsstring | Number jsnum

text \<open>
  \<open>StringToNumber\<close> follows the grammar of the language definition: surrounding white
  space is ignored, the empty text is 0, a literal is a hexadecimal, octal or binary integer
  (\<open>0x\<close>, \<open>0o\<close>, \<open>0b\<close>) or an optionally signed decimal literal (\<open>Infinity\<close>, or digits
  with an optional fraction and exponent), and any other text is \<open>NaN\<close>. The value of
  a literal is the number value of its mathematical value.
\<close>

definition isDigit :: "16 word \<Rightarrow> bool" where
  "isDigit c \<longleftrightarrow> 0x30 \<le> c \<and> c \<le> 0x39"

definition digit_value :: "16 word \<Rightarrow> nat option" where
  "digit_value c =
     (if 0x30 \<le> c \<and> c \<le> 0x39 then Some (unat (c - 0x30))
      else if 0x61 \<le> c \<and> c \<le> 0x66 then Some (unat (c - 0x61) + 10)
      else if 0x41 \<le> c \<and> c \<le> 0x46 then Some (unat (c - 0x41) + 10)
      else None)"

definition in_radix :: "nat \<Rightarrow> 16 word \<Rightarrow> bool" where
  "in_radix b c = (case digit_value c of None \<Rightarrow> False | Some d \<Rightarrow> d < b)"

definition radix_value :: "nat \<Rightarrow> jsstring \<Rightarrow> nat" where
  "radix_value b ds =
     foldl (\<lambda>acc c. acc * b + (case digit_value c of None \<Rightarrow> 0 | Some d \<Rightarrow> d)) 0 ds"

definition NonDecimalIntegerLiteral :: "nat \<Rightarrow> jsstring \<Rightarrow> jsnum" where
  "NonDecimalIntegerLiteral b ds =
     (if ds \<noteq> [] \<and> list_all (in_radix b) ds then binary64 (of_nat (radix_value b ds))
      else NaN)"

definition scale10 :: "nat \<Rightarrow> int \<Rightarrow> rat" where
  "scale10 m e = (if 0 \<le> e then of_nat m * 10 ^ nat e else of_nat m / 10 ^ nat (- e))"

definition SignedInteger :: "jsstring \<Rightarrow> int option" where
  "SignedInteger ds =
     (let body = (case ds of [] \<Rightarrow> [] | c # r \<Rightarrow> if c = 0x2B \<or> c = 0x2D then r else ds);
          neg = (case ds of [] \<Rightarrow> False | c # r \<Rightarrow> c = 0x2D)
      in if body \<noteq> [] \<and> list_all isDigit body
         then Some (if neg then - int (radix_value 10 body) else int (radix_value 10 body))
         else None)"

definition ExponentPart :: "jsstring \<Rightarrow> int option" where
  "ExponentPart r =
     (case r of
        [] \<Rightarrow> Some 0
      | c # ds \<Rightarrow> if c = 0x65 \<or> c = 0x45 then SignedInteger ds else None)"

definition StrUnsignedDecimalLiteral :: "jsstring \<Rightarrow> jsnum" where
  "StrUnsignedDecimalLiteral r =
     (if r = js ''Infinity'' then PosInfinity
      else
        let ip = takeWhile isDigit r;
            r1 = dropWhile isDigit r;
            dot = (case r1 of [] \<Rightarrow> False | c # _ \<Rightarrow> c = 0x2E);
            fp = (if dot then takeWhile isDigit (tl r1) else []);
            r2 = (if dot then dropWhile isDigit (tl r1) else r1)
        in if ip = [] \<and> fp = [] then NaN
           else (case ExponentPart r2 of
                   None \<Rightarrow> NaN
                 | Some e \<Rightarrow>
                     binary64 (scale10 (radix_value 10 (ip @ fp)) (e - int (length fp)))))"

definition StrDecimalLiteral :: "jsstring \<Rightarrow> jsnum" where
  "StrDecimalLiteral t =
     (case t of
        [] \<Rightarrow> NaN
      | c # r \<Rightarrow> if c = 0x2B then StrUnsignedDecimalLiteral r
                else if c = 0x2D then negate (StrUnsignedDecimalLiteral r)
                else StrUnsignedDecimalLiteral t)"

definition StringToNumber :: "jsstring \<Rightarrow> jsnum" where
  "StringToNumber s =
     (let t = trim s
      in if t = [] then Fin 0
         else (case t of
                 c # x # ds \<Rightarrow>
                   if c = 0x30 \<and> (x = 0x78 \<or> x = 0x58) then NonDecimalIntegerLiteral 16 ds
                   else if c = 0x30 \<and> (x = 0x6F \<or> x = 0x4F) then NonDecimalIntegerLiteral 8 ds
                   else if c = 0x30 \<and> (x = 0x62 \<or> x = 0x42) then NonDecimalIntegerLiteral 2 ds
                   else StrDecimalLiteral t
               | _ \<Rightarrow> StrDecimalLiteral t))"

text \<open>
  \<open>Number(value)\<close>, the conversion that \<open>z.coerce.number()\<close> applies to its input. A raw
  value that is a number already is a binary64 value and is left as it is.
\<close>

fun ToNumber :: "jsval \<Rightarrow> jsnum" where
  "ToNumber Undefined = NaN"
| "ToNumber Null = Fin 0"
| "ToNumber (Bool b) = Fin (if b then 1 else 0)"
| "ToNumber (Number n) = n"
| "ToNumber (Str s) = StringToNumber s"

section \<open>The profile schema and validator: \<open>childSchema\<close>\<close>

text \<open>
  \<^verbatim>\<open>
  const childSchema = z.object({
    fullName: z.string().min(2, "Name must be at least 2 characters"),
    age: z.coerce.number().min(0, "Age cannot be negative").max(18, "Must be under 18"),
    height: z.coerce.number().min(30, "Height (cm) seems too low")
                             .max(250, "Height seems too high"),
    weight: z.coerce.number().min(2, "Weight (kg) seems too low"),
    gender: z.string().optional(),
    medicalNotes: z.string().max(300, "Notes are too long (max 300 chars)").optional(),
  });
  \<close>
  The schema combinators belong to the validation library. A parser returns the parsed
  value or the list of its issues; an issue is a type mismatch (the library's own message)
  or a failed check with the message the schema gives. The bounds of \<open>min\<close> and \<open>max\<close> are
  inclusive. The number parser rejects \<open>NaN\<close>; whether it also rejects the infinities
  depends on the version of the library, which the sources do not fix, so that choice is
  the parameter \<open>finite_only\<close>.
\<close>

datatype issue = InvalidType | TooSmall jsstring | TooBig jsstring

datatype number_check = MinValue rat jsstring | MaxValue rat jsstring

datatype string_check = MinLength nat jsstring | MaxLength nat jsstring

fun less_than :: "jsnum \<Rightarrow> rat \<Rightarrow> bool" where
  "less_than NaN b = False"
| "less_than (Fin q) b = (q < b)"
| "less_than PosInfinity b = False"
| "less_than NegInfinity b = True"

fun greater_than :: "jsnum \<Rightarrow> rat \<Rightarrow> bool" where
  "greater_than NaN b = False"
| "greater_than (Fin q) b = (b < q)"
| "greater_than PosInfinity b = True"
| "greater_than NegInfinity b = False"

fun number_issue :: "jsnum \<Rightarrow> number_check \<Rightarrow> issue list" where
  "number_issue n (MinValue b msg) = (if less_than n b then [TooSmall msg] else [])"
| "number_issue n (MaxValue b msg) = (if greater_than n b then [TooBig msg] else [])"

fun string_issue :: "jsstring \<Rightarrow> string_check \<Rightarrow> issue list" where
  "string_issue s (MinLength k msg) = (if length s < k then [TooSmall msg] else [])"
| "string_issue s (MaxLength k msg) = (if length s > k then [TooBig msg] else [])"

fun is_finite :: "jsnum \<Rightarrow> bool" where
  "is_finite (Fin q) = True"
| "is_finite _ = False"

definition z_number :: "bool \<Rightarrow> number_check list \<Rightarrow> jsnum \<Rightarrow> issue list + jsnum" where
  "z_number finite_only checks n =
     (if n = NaN \<or> (finite_only \<and> \<not> is_finite n) then Inl [InvalidType]
      else (let issues = concat (map (number_issue n) checks)
            in if issues = [] then Inr n else Inl issues))"

definition z_coerce_number :: "bool \<Rightarrow> number_check list \<Rightarrow> jsval \<Rightarrow> issue list + jsnum" where
  "z_coerce_number finite_only checks v = z_number finite_only checks (ToNumber v)"

definition z_string :: "string_check list \<Rightarrow> jsval \<Rightarrow> issue list + jsstring" where
  "z_string checks v =
     (case v of
        Str s \<Rightarrow> (let issues = concat (map (string_issue s) checks)
                  in if issues = [] then Inr s else Inl issues)
      | _ \<Rightarrow> Inl [InvalidType])"

definition z_optional :: "(jsval \<Rightarrow> issue list + 'a) \<Rightarrow> jsval \<Rightarrow> issue list + 'a option" where
  "z_optional p v =
     (case v of
        Undefined \<Rightarrow> Inr None
      | _ \<Rightarrow> (case p v of Inl is \<Rightarrow> Inl is | Inr x \<Rightarrow> Inr (Some x)))"

datatype field = FullName | Age | Height | Weight | Gender | MedicalNotes

text \<open>The raw form values, one per field of the schema.\<close>

record RawInput =
  raw_fullName :: jsval
  raw_age :: jsval
  raw_height :: jsval
  raw_weight :: jsval
  raw_gender :: jsval
  raw_medicalNotes :: jsval

text \<open>\<open>type ChildFormData = z.infer<typeof childSchema>\<close>, the validated profile.\<close>

record ChildFormData =
  fullName :: jsstring
  age :: jsnum
  height :: jsnum
  weight :: jsnum
  gender :: "jsstring option"
  medicalNotes :: "jsstring option"

definition schema_fullName :: "jsval \<Rightarrow> issue list + jsstring" where
  "schema_fullName = z_string [MinLength 2 (js ''Name must be at least 2 characters'')]"

definition schema_age :: "bool \<Rightarrow> jsval \<Rightarrow> issue list + jsnum" where
  "schema_age finite_only =
     z_coerce_number finite_only
       [MinValue 0 (js ''Age cannot be negative''), MaxValue 18 (js ''Must be under 18'')]"

definition schema_height :: "bool \<Rightarrow> jsval \<Rightarrow> issue list + jsnum" where
  "schema_height finite_only =
     z_coerce_number finite_only
       [MinValue 30 (js ''Height (cm) seems too low''),
        MaxValue 250 (js ''Height seems too high'')]"

definition schema_weight :: "bool \<Rightarrow> jsval \<Rightarrow> issue list + jsnum" where
  "schema_weight finite_only =
     z_coerce_number finite_only [MinValue 2 (js ''Weight (kg) seems too low'')]"

definition schema_gender :: "jsval \<Rightarrow> issue list + jsstring option" where
  "schema_gender = z_optional (z_string [])"

definition schema_medicalNotes :: "jsval \<Rightarrow> issue list + jsstring option" where
  "schema_medicalNotes =
     z_optional (z_string [MaxLength 300 (js ''Notes are too long (max 300 chars)'')])"

text \<open>The issues of one field, each under the field's name as its path.\<close>

definition at_path :: "field \<Rightarrow> issue list + 'a \<Rightarrow> (field \<times> issue) list" where
  "at_path f r = (case r of Inl is \<Rightarrow> map (Pair f) is | Inr _ \<Rightarrow> [])"

text \<open>
  The object parser runs every field's parser; it succeeds with the parsed record when all
  of them succeed and fails with the issues of all fields otherwise.
\<close>

definition childSchema :: "bool \<Rightarrow> RawInput \<Rightarrow> (field \<times> issue) list + ChildFormData" where
  "childSchema finite_only raw =
     (let r_fullName = schema_fullName (raw_fullName raw);
          r_age = schema_age finite_only (raw_age raw);
          r_height = schema_height finite_only (raw_height raw);
          r_weight = schema_weight finite_only (raw_weight raw);
          r_gender = schema_gender (raw_gender raw);
          r_medicalNotes = schema_medicalNotes (raw_medicalNotes raw)
      in (case (r_fullName, r_age, r_height, r_weight, r_gender, r_medicalNotes) of
            (Inr n, Inr a, Inr h, Inr w, Inr g, Inr m) \<Rightarrow>
              Inr \<lparr>fullName = n, age = a, height = h, weight = w, gender = g,
                   medicalNotes = m\<rparr>
          | _ \<Rightarrow>
              Inl (at_path FullName r_fullName @ at_path Age r_age @
                   at_path Height r_height @ at_path Weight r_weight @
                   at_path Gender r_gender @ at_path MedicalNotes r_medicalNotes)))"

text \<open>An optional text field of the form: absent, or some text.\<close>

fun optional_text :: "jsstring option \<Rightarrow> jsval" where
  "optional_text None = Undefined"
| "optional_text (Some s) = Str s"

text \<open>
  The form's values once the four required fields are typed in: every input is text, and
  the two optional fields stand at their default, the empty text.
\<close>

definition typed_form :: "string \<Rightarrow> string \<Rightarrow> string \<Rightarrow> string \<Rightarrow> RawInput" where
  "typed_form n a h w =
     \<lparr>raw_fullName = Str (js n), raw_age = Str (js a), raw_height = Str (js h),
      raw_weight = Str (js w), raw_gender = Str [], raw_medicalNotes = Str []\<rparr>"

section \<open>The profile store\<close>

text \<open>
  \<open>type ChildProfile = { fullName; age; height; weight; gender?; medicalNotes?; id? }\<close>:
  a stored profile is the validated data with an optional identifier (a record of the old
  single-profile format has none). The field \<open>id\<close> is called \<open>ident\<close> here.
\<close>

record ChildProfile = ChildFormData +
  ident :: "jsstring option"

text \<open>\<open>{ ...data, id: i }\<close>\<close>

definition with_id :: "ChildFormData \<Rightarrow> jsstring \<Rightarrow> ChildProfile" where
  "with_id data i =
     \<lparr>fullName = fullName data, age = age data, height = height data, weight = weight data,
      gender = gender data, medicalNotes = medicalNotes data, ident = Some i\<rparr>"

text \<open>
  The key-value store holds texts. A text is modelled by what \<open>JSON.parse\<close> makes of it:
  the empty text (which is falsy), a text that \<open>JSON.parse\<close> rejects with an exception, or
  the \<open>JSON.stringify\<close> image of a value. Encoding and decoding are taken to be inverse to
  each other on the stored values, and the calls of the store itself are taken to succeed.
  The store has the two keys \<open>children_list\<close> and \<open>child_profile\<close>; \<open>None\<close> is the
  \<open>null\<close> that \<open>getItem\<close> returns for a key that is not there.
\<close>

datatype 'a stored = Blank | Unparsable | Json 'a

record Storage =
  children_list :: "ChildProfile list stored option"
  child_profile :: "ChildProfile stored option"

text \<open>\<open>if (item)\<close> for the result of \<open>getItem\<close>: \<open>null\<close> and the empty text are falsy.\<close>

definition truthy :: "'a stored option \<Rightarrow> bool" where
  "truthy item \<longleftrightarrow> item \<noteq> None \<and> item \<noteq> Some Blank"

text \<open>
  \<open>childrenJson ? JSON.parse(childrenJson) : []\<close>; \<open>None\<close> stands for the exception of
  \<open>JSON.parse\<close>.
\<close>

definition parse_or_empty :: "'a list stored option \<Rightarrow> 'a list option" where
  "parse_or_empty item =
     (case item of
        None \<Rightarrow> Some []
      | Some Blank \<Rightarrow> Some []
      | Some Unparsable \<Rightarrow> None
      | Some (Json v) \<Rightarrow> Some v)"

text \<open>
  What a handler does besides changing the store, in the order in which it does it.
\<close>

datatype effect =
    Alert jsstring jsstring
  | RouterBack
  | ConsoleError
  | SetItem string
  | RemoveItem string
  | SetIsExporting bool
  | SetCaptureData ChildFormData
  | PrintToFile jsstring
  | CaptureRef
  | RequestPermissions
  | CreateAsset jsstring
  | GetAlbum jsstring
  | CreateAlbum jsstring jsstring
  | AddAssetsToAlbum jsstring jsstring

text \<open>
  \<open>Date.now().toString()\<close>: a clock reading is a non-negative integer number of
  milliseconds, far below \<open>10^21\<close>, and such a number prints as its decimal digits.
\<close>

function Number_toString :: "nat \<Rightarrow> jsstring" where
  "Number_toString n =
     (if n < 10 then [of_nat (48 + n)]
      else Number_toString (n div 10) @ [of_nat (48 + n mod 10)])"
  by pat_completeness auto
termination
  by (relation "measure id") auto

declare Number_toString.simps [simp del]

text \<open>\<open>array.findIndex(p)\<close>, with \<open>None\<close> for \<open>-1\<close>.\<close>

fun findIndex :: "('a \<Rightarrow> bool) \<Rightarrow> 'a list \<Rightarrow> nat option" where
  "findIndex p [] = None"
| "findIndex p (x # xs) =
     (if p x then Some 0 else (case findIndex p xs of None \<Rightarrow> None | Some k \<Rightarrow> Some (Suc k)))"

text \<open>
  \<open>const isEditMode = !!id\<close>, with \<open>id\<close> the optional route parameter: the empty text is
  falsy.
\<close>

definition isEditMode :: "jsstring option \<Rightarrow> bool" where
  "isEditMode rid = (case rid of None \<Rightarrow> False | Some i \<Rightarrow> i \<noteq> [])"

subsection \<open>The home screen: \<open>loadChildren\<close> and \<open>handleDeleteChild\<close>\<close>

text \<open>
  \<^verbatim>\<open>
  const loadChildren = async () => {
    try {
      const childrenJson = await AsyncStorage.getItem('children_list');
      if (childrenJson) {
        const childrenList = JSON.parse(childrenJson);
        setChildren(childrenList);
        return;
      }
      const oldChildJson = await AsyncStorage.getItem('child_profile');
      if (oldChildJson) {
        const oldChild = JSON.parse(oldChildJson);
        const migratedChild = { ...oldChild, id: Date.now().toString() };
        await AsyncStorage.setItem('children_list', JSON.stringify([migratedChild]));
        await AsyncStorage.removeItem('child_profile');
        setChildren([migratedChild]);
      } else {
        setChildren([]);
      }
    } catch (error) {
      console.error('Error loading children:', error);
      setChildren([]);
    }
  };
  \<close>
  The result is the store after the call and the list given to \<open>setChildren\<close>; \<open>now\<close> is
  the reading of the clock.
\<close>

definition loadChildren :: "nat \<Rightarrow> Storage \<Rightarrow> Storage \<times> ChildProfile list" where
  "loadChildren now s =
     (if truthy (children_list s) then
        (case children_list s of
           Some (Json childrenList) \<Rightarrow> (s, childrenList)
         | _ \<Rightarrow> (s, []))
      else if truthy (child_profile s) then
        (case child_profile s of
           Some (Json oldChild) \<Rightarrow>
             (let migratedChild = oldChild\<lparr>ident := Some (Number_toString now)\<rparr>
              in (\<lparr>children_list = Some (Json [migratedChild]), child_profile = None\<rparr>,
                  [migratedChild]))
         | _ \<Rightarrow> (s, []))
      else (s, []))"

text \<open>The answer of the user to a confirmation dialog.\<close>

datatype answer = Cancel | Delete

text \<open>
  \<^verbatim>\<open>
  const handleDeleteChild = async (id: string, name: string) => {
    Alert.alert('Delete Child', `Are you sure you want to delete ${name}'s profile?`, [
      { text: 'Cancel', style: 'cancel' },
      { text: 'Delete', style: 'destructive',
        onPress: async () => {
          try {
            const updatedChildren = children.filter(child => child.id !== id);
            await AsyncStorage.setItem('children_list', JSON.stringify(updatedChildren));
            setChildren(updatedChildren);
          } catch (error) {
            Alert.alert('Error', 'Failed to delete child profile');
          }
        } } ]);
  };
  \<close>
  \<open>children\<close> is the list the screen holds in its state, not the stored one. The result is
  the store, the screen's list and the effects.
\<close>

definition delete_child_dialog :: "jsstring \<Rightarrow> effect" where
  "delete_child_dialog name =
     Alert (js ''Delete Child'')
       (js ''Are you sure you want to delete '' @ name @ [0x27] @ js ''s profile?'')"

definition handleDeleteChild ::
  "jsstring \<Rightarrow> jsstring \<Rightarrow> answer \<Rightarrow> ChildProfile list \<Rightarrow> Storage \<Rightarrow>
     Storage \<times> ChildProfile list \<times> effect list" where
  "handleDeleteChild i name pressed children s =
     (let dialog = delete_child_dialog name
      in case pressed of
           Cancel \<Rightarrow> (s, children, [dialog])
         | Delete \<Rightarrow>
             (let updatedChildren = filter (\<lambda>child. ident child \<noteq> Some i) children
              in (s\<lparr>children_list := Some (Json updatedChildren)\<rparr>, updatedChildren,
                  [dialog, SetItem ''children_list''])))"

subsection \<open>The profile screen: \<open>onSubmit\<close> and \<open>handleDelete\<close>\<close>

text \<open>
  \<^verbatim>\<open>
  const onSubmit = async (data: ChildFormData) => {
    try {
      const childrenJson = await AsyncStorage.getItem("children_list");
      let childrenList = childrenJson ? JSON.parse(childrenJson) : [];
      if (isEditMode && id) {
        const childIndex = childrenList.findIndex((c: any) => c.id === id);
        if (childIndex !== -1) {
          childrenList[childIndex] = { ...data, id: id };
          Alert.alert("Success", "Child profile updated!");
        } else {
          Alert.alert("Error", "Child profile not found");
          return;
        }
      } else {
        const newChild = { ...data, id: Date.now().toString() };
        childrenList.push(newChild);
        Alert.alert("Success", "Child profile saved!");
      }
      await AsyncStorage.setItem("children_list", JSON.stringify(childrenList));
      const oldChildJson = await AsyncStorage.getItem("child_profile");
      if (oldChildJson && !isEditMode) {
        const oldChild = JSON.parse(oldChildJson);
        const migratedChild = { ...oldChild, id: (Date.now() + 1).toString() };
        const updatedList = [...childrenList, migratedChild];
        await AsyncStorage.setItem("children_list", JSON.stringify(updatedList));
        await AsyncStorage.removeItem("child_profile");
      }
      router.back();
    } catch (e) {
      console.error("Save error:", e);
      Alert.alert("Error", "Failed to save data");
    }
  };
  \<close>
  \<open>rid\<close> is the route parameter \<open>id\<close>, \<open>now\<close> the clock reading taken for the new profile
  and \<open>later\<close> the one taken for the migrated profile.
\<close>

definition migrate_after_save ::
  "nat \<Rightarrow> ChildProfile list \<Rightarrow> effect list \<Rightarrow> Storage \<Rightarrow> Storage \<times> effect list" where
  "migrate_after_save later childrenList sofar s =
     (if truthy (child_profile s) then
        (case child_profile s of
           Some (Json oldChild) \<Rightarrow>
             (let migratedChild = oldChild\<lparr>ident := Some (Number_toString (later + 1))\<rparr>;
                  updatedList = childrenList @ [migratedChild]
              in (\<lparr>children_list = Some (Json updatedList), child_profile = None\<rparr>,
                  sofar @ [SetItem ''children_list'', RemoveItem ''child_profile'', RouterBack]))
         | _ \<Rightarrow> (s, sofar @ [ConsoleError, Alert (js ''Error'') (js ''Failed to save data'')]))
      else (s, sofar @ [RouterBack]))"

definition onSubmit ::
  "jsstring option \<Rightarrow> nat \<Rightarrow> nat \<Rightarrow> ChildFormData \<Rightarrow> Storage \<Rightarrow> Storage \<times> effect list" where
  "onSubmit rid now later data s =
     (case parse_or_empty (children_list s) of
        None \<Rightarrow> (s, [ConsoleError, Alert (js ''Error'') (js ''Failed to save data'')])
      | Some childrenList \<Rightarrow>
          (case (if isEditMode rid then rid else None) of
             Some i \<Rightarrow>
               (case findIndex (\<lambda>c. ident c = Some i) childrenList of
                  Some childIndex \<Rightarrow>
                    (s\<lparr>children_list :=
                         Some (Json (childrenList[childIndex := with_id data i]))\<rparr>,
                     [Alert (js ''Success'') (js ''Child profile updated!''),
                      SetItem ''children_list'', RouterBack])
                | None \<Rightarrow> (s, [Alert (js ''Error'') (js ''Child profile not found'')]))
           | None \<Rightarrow>
            (let newChild = with_id data (Number_toString now);
                 saved = childrenList @ [newChild]
             in migrate_after_save later saved
                  [Alert (js ''Success'') (js ''Child profile saved!''),
                   SetItem ''children_list'']
                  (s\<lparr>children_list := Some (Json saved)\<rparr>))))"

text \<open>
  \<^verbatim>\<open>
  const handleDelete = async () => {
    if (!isEditMode || !id) { return; }
    Alert.alert('Delete Child Profile', `Are you sure ...`, [
      { text: 'Cancel', style: 'cancel' },
      { text: 'Delete', style: 'destructive',
        onPress: async () => {
          try {
            const childrenJson = await AsyncStorage.getItem('children_list');
            if (childrenJson) {
              const childrenList = JSON.parse(childrenJson);
              const updatedChildren = childrenList.filter((c: any) => c.id !== id);
              await AsyncStorage.setItem('children_list', JSON.stringify(updatedChildren));
              Alert.alert('Success', 'Child profile deleted');
              router.back();
            } else {
              Alert.alert('Error', 'No children found');
            }
          } catch (error) {
            Alert.alert('Error', 'Failed to delete child profile');
          }
        } } ]);
  };
  \<close>
\<close>

definition delete_profile_dialog :: effect where
  "delete_profile_dialog =
     Alert (js ''Delete Child Profile'')
       (js (''Are you sure you want to delete this child profile? '' @
            ''This action cannot be undone.''))"

definition handleDelete ::
  "jsstring option \<Rightarrow> answer \<Rightarrow> Storage \<Rightarrow> Storage \<times> effect list" where
  "handleDelete rid pressed s =
     (let dialog = delete_profile_dialog
      in if \<not> isEditMode rid then (s, [])
         else case pressed of
                Cancel \<Rightarrow> (s, [dialog])
              | Delete \<Rightarrow>
                  if truthy (children_list s) then
                    (case children_list s of
                       Some (Json childrenList) \<Rightarrow>
                         (let updatedChildren = filter (\<lambda>c. ident c \<noteq> rid) childrenList
                          in (s\<lparr>children_list := Some (Json updatedChildren)\<rparr>,
                              [dialog, SetItem ''children_list'',
                               Alert (js ''Success'') (js ''Child profile deleted''),
                               RouterBack]))
                     | _ \<Rightarrow>
                         (s, [dialog, ConsoleError,
                              Alert (js ''Error'') (js ''Failed to delete child profile'')]))
                  else (s, [dialog, Alert (js ''Error'') (js ''No children found'')]))"

text \<open>
  \<open>handleSubmit(callback)\<close> of the form library: the callback runs on the validated data,
  and only when validation succeeds.
\<close>

definition handleSubmit ::
  "bool \<Rightarrow> (ChildFormData \<Rightarrow> 'a) \<Rightarrow> RawInput \<Rightarrow> (field \<times> issue) list + 'a" where
  "handleSubmit finite_only callback raw =
     (case childSchema finite_only raw of
        Inl errors \<Rightarrow> Inl errors
      | Inr data \<Rightarrow> Inr (callback data))"

text \<open>
  The profile of the specification's scenarios, \<open>{fullName, age: 5, height: 110, weight: 18}\<close>,
  under a given name.
\<close>

definition scenario_profile :: "string \<Rightarrow> ChildFormData" where
  "scenario_profile n =
     \<lparr>fullName = js n, age = Fin 5, height = Fin 110, weight = Fin 18, gender = None,
      medicalNotes = None\<rparr>"

section \<open>The export renderer\<close>

subsection \<open>The document: \<open>buildPdfHtml\<close>\<close>

text \<open>
  \<^verbatim>\<open>
  export type PdfChildData = {
    fullName: string; age?: number; height?: number; weight?: number;
    gender?: string | null; medicalNotes?: string | null;
  };
  \<close>
  An optional field is \<open>None\<close> when it is \<open>undefined\<close> or \<open>null\<close>; the template treats the two
  alike.
\<close>

record PdfChildData =
  pdf_fullName :: jsstring
  pdf_age :: "jsnum option"
  pdf_height :: "jsnum option"
  pdf_weight :: "jsnum option"
  pdf_gender :: "jsstring option"
  pdf_medicalNotes :: "jsstring option"

text \<open>The call \<open>buildPdfHtml(data)\<close> of the profile screen passes the validated data.\<close>

definition as_PdfChildData :: "ChildFormData \<Rightarrow> PdfChildData" where
  "as_PdfChildData data =
     \<lparr>pdf_fullName = fullName data, pdf_age = Some (age data), pdf_height = Some (height data),
      pdf_weight = Some (weight data), pdf_gender = gender data,
      pdf_medicalNotes = medicalNotes data\<rparr>"

text \<open>
  The text of the template literal between its interpolations, line by line as in
  \<open>pdf-builder.tsx\<close>.
\<close>

definition html_head :: jsstring where
  \<open>html_head =
     js (''<!DOCTYPE html>\<newline>'' @
         ''<html>\<newline>'' @
         ''    <head>\<newline>'' @
         ''    <meta charset="utf-8" />\<newline>'' @
         ''    <style>\<newline>'' @
         ''        body { font-family: Arial, sans-serif; padding: 24px; color: #1a1a1a; }\<newline>'' @
         ''        h1 { font-size: 24px; margin-bottom: 12px; }\<newline>'' @
         ''        h2 { font-size: 16px; margin-top: 18px; margin-bottom: 6px; color: #007AFF; }\<newline>'' @
         ''        .card { border: 1px solid #e5e5e5; border-radius: 12px; padding: 16px; box-shadow: 0 4px 10px rgba(0,0,0,0.05); }\<newline>'' @
         ''        .row { display: flex; justify-content: space-between; margin-bottom: 8px; }\<newline>'' @
         ''        .label { font-weight: 600; color: #555; }\<newline>'' @
         ''        .value { color: #111; }\<newline>'' @
         ''    </style>\<newline>'' @
         ''    </head>\<newline>'' @
         ''    <body>\<newline>'' @
         ''    <h1>Child Guard ID</h1>\<newline>'' @
         ''    <div class="card">\<newline>'' @
         ''        <div class="row"><span class="label">Full Name:</span><span class="value">'')\<close>

definition html_after_fullName :: jsstring where
  \<open>html_after_fullName =
     js (''</span></div>\<newline>'' @
         ''        <div class="row"><span class="label">Age:</span><span class="value">'')\<close>

definition html_after_age :: jsstring where
  \<open>html_after_age =
     js (''</span></div>\<newline>'' @
         ''        <div class="row"><span class="label">Gender:</span><span class="value">'')\<close>

definition html_after_gender :: jsstring where
  \<open>html_after_gender =
     js (''</span></div>\<newline>'' @
         ''        <div class="row"><span class="label">Height (cm):</span><span class="value">'')\<close>

definition html_after_height :: jsstring where
  \<open>html_after_height =
     js (''</span></div>\<newline>'' @
         ''        <div class="row"><span class="label">Weight (kg):</span><span class="value">'')\<close>

definition html_after_weight :: jsstring where
  \<open>html_after_weight =
     js (''</span></div>\<newline>'' @
         ''        <h2>Medical Notes</h2>\<newline>'' @
         ''        <p>'')\<close>

definition html_tail :: jsstring where
  \<open>html_tail =
     js (''</p>\<newline>'' @
         ''    </div>\<newline>'' @
         ''    </body>\<newline>'' @
         ''</html>'')\<close>

text \<open>
  The interpolated expressions. \<open>toStr\<close> is the conversion of a number to text that a
  template literal (and a text element) applies; it belongs to the platform and is a
  parameter. An absent text counts as the empty text under \<open>||\<close>.
  \<^item> \<open>${data.age ?? ""}\<close>, and the same for height and weight;
  \<^item> \<open>${data.gender || "\<emdash>"}\<close>, where the placeholder is the em dash U+2014;
  \<^item> \<open>${data.medicalNotes || "None provided"}\<close>.
\<close>

definition text_of :: "jsstring option \<Rightarrow> jsstring" where
  "text_of v = (case v of None \<Rightarrow> [] | Some s \<Rightarrow> s)"

definition html_number :: "(jsnum \<Rightarrow> jsstring) \<Rightarrow> jsnum option \<Rightarrow> jsstring" where
  "html_number toStr v = (case v of None \<Rightarrow> [] | Some n \<Rightarrow> toStr n)"

definition html_gender :: "PdfChildData \<Rightarrow> jsstring" where
  "html_gender data = or_else (text_of (pdf_gender data)) [0x2014]"

definition html_medicalNotes :: "PdfChildData \<Rightarrow> jsstring" where
  "html_medicalNotes data = or_else (text_of (pdf_medicalNotes data)) (js ''None provided'')"

definition buildPdfHtml :: "(jsnum \<Rightarrow> jsstring) \<Rightarrow> PdfChildData \<Rightarrow> jsstring" where
  "buildPdfHtml toStr data =
     html_head @ pdf_fullName data @
     html_after_fullName @ html_number toStr (pdf_age data) @
     html_after_age @ html_gender data @
     html_after_gender @ html_number toStr (pdf_height data) @
     html_after_height @ html_number toStr (pdf_weight data) @
     html_after_weight @ html_medicalNotes data @
     html_tail"

subsection \<open>The image: the hidden capture card\<close>

text \<open>
  The card of the screen that also builds the document:
  \<^verbatim>\<open>
  <ViewShot ref={viewShotRef} options={{ format: "png", quality: 1 }}
            style={styles.hiddenCapture}>
    <View style={styles.captureCard}>
      <Text style={styles.captureTitle}>Child Guard ID</Text>
      <Text style={styles.captureName}>
        {(captureData?.fullName || "").trim() || "Name missing"}
      </Text>
      <View style={styles.captureRow}>
        <Text style={styles.captureLabel}>Age</Text>
        <Text style={styles.captureValue}>{captureData?.age ?? ""}</Text>
      </View>
      <View style={styles.captureRow}>
        <Text style={styles.captureLabel}>Gender</Text>
        <Text style={styles.captureValue}>{captureData?.gender || "..."}</Text>
      </View>
      <View style={styles.captureRow}>
        <Text style={styles.captureLabel}>Height (cm)</Text>
        <Text style={styles.captureValue}>{captureData?.height ?? ""}</Text>
      </View>
      <View style={styles.captureRow}>
        <Text style={styles.captureLabel}>Weight (kg)</Text>
        <Text style={styles.captureValue}>{captureData?.weight ?? ""}</Text>
      </View>
      <Text style={styles.captureSection}>Medical Notes</Text>
      <Text style={styles.captureNotes}>{captureData?.medicalNotes || "None provided"}</Text>
    </View>
  </ViewShot>
  \<close>
  In this copy of the screen the placeholder of the gender is not the em dash: the file
  holds the three characters U+00E2 U+20AC U+201D, the em dash read in the wrong encoding.
  The copy of the screen without the document, \<open>app/(tabs)/add_child.tsx\<close>, has the em dash
  at this place and is the same everywhere else.
\<close>

datatype element = View string "element list" | Text string jsstring

definition card_name :: "ChildFormData option \<Rightarrow> jsstring" where
  "card_name captureData =
     or_else (trim (or_else (text_of (map_option fullName captureData)) []))
       (js ''Name missing'')"

definition card_number ::
  "(jsnum \<Rightarrow> jsstring) \<Rightarrow> (ChildFormData \<Rightarrow> jsnum) \<Rightarrow> ChildFormData option \<Rightarrow> jsstring" where
  "card_number toStr field captureData =
     (case captureData of None \<Rightarrow> [] | Some data \<Rightarrow> toStr (field data))"

definition card_gender :: "ChildFormData option \<Rightarrow> jsstring" where
  "card_gender captureData =
     or_else (text_of (case captureData of None \<Rightarrow> None | Some data \<Rightarrow> gender data))
       [0xE2, 0x20AC, 0x201D]"

definition card_medicalNotes :: "ChildFormData option \<Rightarrow> jsstring" where
  "card_medicalNotes captureData =
     or_else (text_of (case captureData of None \<Rightarrow> None | Some data \<Rightarrow> medicalNotes data))
       (js ''None provided'')"

definition captureCard :: "(jsnum \<Rightarrow> jsstring) \<Rightarrow> ChildFormData option \<Rightarrow> element" where
  "captureCard toStr captureData =
     View ''hiddenCapture''
       [View ''captureCard''
          [Text ''captureTitle'' (js ''Child Guard ID''),
           Text ''captureName'' (card_name captureData),
           View ''captureRow''
             [Text ''captureLabel'' (js ''Age''),
              Text ''captureValue'' (card_number toStr age captureData)],
           View ''captureRow''
             [Text ''captureLabel'' (js ''Gender''),
              Text ''captureValue'' (card_gender captureData)],
           View ''captureRow''
             [Text ''captureLabel'' (js ''Height (cm)''),
              Text ''captureValue'' (card_number toStr height captureData)],
           View ''captureRow''
             [Text ''captureLabel'' (js ''Weight (kg)''),
              Text ''captureValue'' (card_number toStr weight captureData)],
           Text ''captureSection'' (js ''Medical Notes''),
           Text ''captureNotes'' (card_medicalNotes captureData)]]"

subsection \<open>Saving the image: \<open>exportPdfAndImage\<close>\<close>

text \<open>
  What the platform answers during one export: whether the capture view is mounted, the
  files that printing and capturing write, the status of the media-library permission,
  and whether the calls of the media library succeed. \<open>None\<close> (or \<open>False\<close>) stands for a
  call that is rejected.
\<close>

record Platform =
  print_file :: "jsstring option"
  view_ready :: bool
  capture_file :: "jsstring option"
  permission_status :: "jsstring option"
  asset_created :: bool
  album_found :: "bool option"
  album_updated :: bool

text \<open>The \<open>catch\<close> block of the export.\<close>

definition export_failed :: "effect list" where
  "export_failed =
     [ConsoleError, Alert (js ''Error'') (js ''Could not export the PDF and image.'')]"

text \<open>
  \<^verbatim>\<open>
      const asset = await MediaLibrary.createAssetAsync(shotUri);
      const albumName = `ChildGuardID - ${safeName}`;
      let album = await MediaLibrary.getAlbumAsync(albumName);
      if (!album) {
        album = await MediaLibrary.createAlbumAsync(albumName, asset, false);
      } else {
        await MediaLibrary.addAssetsToAlbumAsync([asset], album, false);
      }
      Alert.alert("Saved", `Image saved to Photos album: ${albumName}`);
  \<close>
\<close>

definition save_to_library :: "Platform \<Rightarrow> jsstring \<Rightarrow> jsstring \<Rightarrow> effect list" where
  "save_to_library p shotUri safeName =
     (let albumName = js ''ChildGuardID - '' @ safeName;
          saved = Alert (js ''Saved'') (js ''Image saved to Photos album: '' @ albumName)
      in CreateAsset shotUri #
         (if \<not> asset_created p then export_failed
          else GetAlbum albumName #
               (case album_found p of
                  None \<Rightarrow> export_failed
                | Some False \<Rightarrow>
                    CreateAlbum albumName shotUri #
                    (if album_updated p then [saved] else export_failed)
                | Some True \<Rightarrow>
                    AddAssetsToAlbum albumName shotUri #
                    (if album_updated p then [saved] else export_failed))))"

text \<open>
  The part that both copies of the screen share:
  \<^verbatim>\<open>
      if (!viewShotRef.current) {
        throw new Error("Capture view is not ready");
      }
      const shotUri = await captureRef(viewShotRef, { format: "png", quality: 1 });
      const safeName = sanitizeForFileSystem(data.fullName);
      const permission = await MediaLibrary.requestPermissionsAsync();
      if (permission.status !== "granted") {
        Alert.alert("Permission needed",
                    "Please allow photo library access to save the image.");
        return;
      }
  \<close>
  followed by the saving above. \<open>current\<close> tells whether \<open>viewShotRef.current\<close> holds the
  capture view when the handler reads it.
\<close>

definition capture_and_save :: "bool \<Rightarrow> Platform \<Rightarrow> ChildFormData \<Rightarrow> effect list" where
  "capture_and_save current p data =
     (if \<not> current then export_failed
      else CaptureRef #
           (case capture_file p of
              None \<Rightarrow> export_failed
            | Some shotUri \<Rightarrow>
                (let safeName = sanitizeForFileSystem (fullName data)
                 in RequestPermissions #
                    (case permission_status p of
                       None \<Rightarrow> export_failed
                     | Some status \<Rightarrow>
                         if status \<noteq> js ''granted'' then
                           [Alert (js ''Permission needed'')
                              (js ''Please allow photo library access to save the image.'')]
                         else save_to_library p shotUri safeName))))"

text \<open>
  \<open>exportPdfAndImage\<close> of \<open>app/(tabs)/add_child.tsx\<close>, the callback that \<open>handleSubmit\<close>
  runs on the validated data:
  \<^verbatim>\<open>
    setIsExporting(true);
    try {
      setCaptureData(data);
      await new Promise((resolve) => setTimeout(resolve, 30));
      ... the shared part ...
    } catch (error) {
      console.error("Export error:", error);
      Alert.alert("Error", "Could not export the PDF and image.");
    } finally {
      setIsExporting(false);
    }
  \<close>
  This copy makes its ref with \<open>const viewShotRef = React.createRef<ViewShot>()\<close> in the
  body of the component, so every render makes a new ref object. The handler keeps the
  ref object of the render that made it; its own \<open>setIsExporting(true)\<close> and
  \<open>setCaptureData(data)\<close> cause a render during the delay, which attaches the view to a
  new ref object and clears the old one. When the handler reads \<open>viewShotRef.current\<close> it
  is \<open>null\<close>.
\<close>

definition exportPdfAndImage :: "Platform \<Rightarrow> ChildFormData \<Rightarrow> effect list" where
  "exportPdfAndImage p data =
     [SetIsExporting True, SetCaptureData data] @ capture_and_save False p data @
     [SetIsExporting False]"

text \<open>
  \<open>exportPdfAndImage\<close> of the copy of the screen that builds the document; it differs by
  two lines after the delay:
  \<^verbatim>\<open>
      const html = buildPdfHtml(data);
      const pdf = await Print.printToFileAsync({ html });
  \<close>
  and by its ref, \<open>useRef<ViewShot | null>(null)\<close>, which is the same object in every
  render and holds the view whenever the view is mounted.
\<close>

definition exportPdfAndImage_pdf ::
  "(jsnum \<Rightarrow> jsstring) \<Rightarrow> Platform \<Rightarrow> ChildFormData \<Rightarrow> effect list" where
  "exportPdfAndImage_pdf toStr p data =
     [SetIsExporting True, SetCaptureData data,
      PrintToFile (buildPdfHtml toStr (as_PdfChildData data))] @
     (case print_file p of
        None \<Rightarrow> export_failed
      | Some pdf \<Rightarrow> capture_and_save (view_ready p) p data) @
     [SetIsExporting False]"

text \<open>
  The effects that write a rendering of the profile to a file: printing writes the document
  file, capturing writes the snapshot file, and the calls of the media library write the
  image into the library and its albums. The last three are the writes to the media
  library. No effect of the export removes a file.
\<close>

fun writes_file :: "effect \<Rightarrow> bool" where
  "writes_file (PrintToFile html) = True"
| "writes_file CaptureRef = True"
| "writes_file (CreateAsset uri) = True"
| "writes_file (CreateAlbum name uri) = True"
| "writes_file (AddAssetsToAlbum name uri) = True"
| "writes_file _ = False"

fun writes_media_library :: "effect \<Rightarrow> bool" where
  "writes_media_library (CreateAsset uri) = True"
| "writes_media_library (CreateAlbum name uri) = True"
| "writes_media_library (AddAssetsToAlbum name uri) = True"
| "writes_media_library _ = False"

text \<open>The effects before the permission is requested, and those from the request on.\<close>

definition before_request :: "effect list \<Rightarrow> effect list" where
  "before_request trace = takeWhile (\<lambda>e. e \<noteq> RequestPermissions) trace"

definition from_request :: "effect list \<Rightarrow> effect list" where
  "from_request trace = dropWhile (\<lambda>e. e \<noteq> RequestPermissions) trace"

text \<open>A platform on which everything succeeds but the permission is refused.\<close>

definition refusing_platform :: Platform where
  "refusing_platform =
     \<lparr>print_file = Some (js ''file:///cache/Print/card.pdf''), view_ready = True,
      capture_file = Some (js ''file:///tmp/shot.png''),
      permission_status = Some (js ''denied''), asset_created = True,
      album_found = Some False, album_updated = True\<rparr>"

section \<open>Properties of the artifact name\<close>

lemma underscore_runs_skip:
  "\<not> in_class c \<Longrightarrow>
     underscore_runs (c # cs) = 0x5F # underscore_runs (dropWhile (\<lambda>d. \<not> in_class d) cs)"
  by (induction cs arbitrary: c) auto

lemma replace_runs_eq: "replace_runs s = underscore_runs s"
proof (induction s rule: replace_runs.induct)
  case 1
  show ?case by simp
next
  case (2 c cs)
  show ?case
  proof (cases "in_class c")
    case True
    with 2 show ?thesis by (cases cs) auto
  next
    case False
    with 2 show ?thesis by (simp add: underscore_runs_skip)
  qed
qed

lemma replace_runs_class: "c \<in> set (replace_runs s) \<Longrightarrow> in_class c"
  by (induction s rule: replace_runs.induct) (auto simp: in_class_def split: if_splits)

lemma replace_runs_Nil: "replace_runs s = [] \<longleftrightarrow> s = []"
  by (cases s) auto

lemma in_class_child: "c \<in> set (js ''child'') \<Longrightarrow> in_class c"
  by (auto simp: js_def in_class_def)

text \<open>
  C3, as stated, fails: the name \<open>J. Doe\<close> has a run of two code units outside the class
  (the full stop and the space). The code replaces the run by one underscore, the stated
  rule gives one underscore for each of the two.
\<close>

theorem sanitizeForFileSystem_counterexample:
  "sanitizeForFileSystem (js ''J. Doe'') = js ''J_Doe'' \<and>
   spec_artifact_name (js ''J. Doe'') = js ''J__Doe'' \<and>
   sanitizeForFileSystem (js ''J. Doe'') \<noteq> spec_artifact_name (js ''J. Doe'')"
  by (simp add: sanitizeForFileSystem_def spec_artifact_name_def js_def trim_def
      isWhiteSpace_def in_class_def)

text \<open>
  C3, amended: the artifact name is computed from the full name with the white space at
  both ends removed; every maximal run of code units outside \<open>[A-Za-z0-9-_]\<close> becomes a
  single underscore and the result is cut to 40 code units. The default name \<open>child\<close> is
  returned when the trimmed name is empty, and otherwise only when the cleaned name itself
  reads \<open>child\<close>. The name is never empty, never longer than 40 code units and holds
  only code units of the class.
\<close>

theorem sanitizeForFileSystem_runs:
  "sanitizeForFileSystem v =
     (if trim v = [] then js ''child'' else take 40 (underscore_runs (trim v))) \<and>
   (sanitizeForFileSystem v = js ''child'' \<longleftrightarrow>
      trim v = [] \<or> underscore_runs (trim v) = js ''child'') \<and>
   sanitizeForFileSystem v \<noteq> [] \<and>
   length (sanitizeForFileSystem v) \<le> 40 \<and>
   (\<forall>c \<in> set (sanitizeForFileSystem v). in_class c)"
proof -
  let ?t = "trim v"
  have ne: "?t \<noteq> [] \<Longrightarrow> underscore_runs ?t \<noteq> []"
    using replace_runs_Nil [of ?t] by (simp add: replace_runs_eq)
  have eq: "sanitizeForFileSystem v =
      (if ?t = [] then js ''child'' else take 40 (underscore_runs ?t))"
    using ne by (simp add: sanitizeForFileSystem_def Let_def replace_runs_eq)
  have len: "length (js ''child'') = 5"
    by (simp add: js_def)
  have dflt: "take 40 (underscore_runs ?t) = js ''child'' \<longleftrightarrow> underscore_runs ?t = js ''child''"
  proof
    assume h: "take 40 (underscore_runs ?t) = js ''child''"
    then have "length (take 40 (underscore_runs ?t)) = 5"
      using len by simp
    then have "length (underscore_runs ?t) \<le> 40"
      by (simp add: min_def split: if_splits)
    with h show "underscore_runs ?t = js ''child''"
      by simp
  next
    assume "underscore_runs ?t = js ''child''"
    then show "take 40 (underscore_runs ?t) = js ''child''"
      using len by simp
  qed
  have cls: "\<forall>c \<in> set (sanitizeForFileSystem v). in_class c"
  proof
    fix c
    assume "c \<in> set (sanitizeForFileSystem v)"
    then show "in_class c"
      unfolding eq using replace_runs_class [of c ?t]
      by (auto simp: replace_runs_eq in_class_child dest: in_set_takeD split: if_splits)
  qed
  have nonempty: "sanitizeForFileSystem v \<noteq> []"
    unfolding eq using ne by (auto simp: js_def)
  have short: "length (sanitizeForFileSystem v) \<le> 40"
    unfolding eq using len by simp
  show ?thesis
    using eq dflt cls nonempty short by auto
qed

theorem sanitizeForFileSystem_runs_witness:
  "sanitizeForFileSystem (js ''  J. Doe '') = js ''J_Doe'' \<and>
   list_all in_class (sanitizeForFileSystem (js ''  J. Doe ''))"
proof -
  have t: "trim (js ''  J. Doe '') = js ''J. Doe''"
    by (simp add: js_def trim_def isWhiteSpace_def)
  have "sanitizeForFileSystem (js ''  J. Doe '') = js ''J_Doe''"
    using sanitizeForFileSystem_runs [of "js ''  J. Doe ''"] unfolding t
    by (simp add: js_def in_class_def)
  moreover have "list_all in_class (sanitizeForFileSystem (js ''  J. Doe ''))"
    using sanitizeForFileSystem_runs [of "js ''  J. Doe ''"]
    by (simp add: list_all_iff)
  ultimately show ?thesis by simp
qed

section \<open>Properties of the number conversion\<close>

lemma floor_log2_ge1:
  assumes "1 \<le> (x::rat)"
  shows "2 powi (bitlen \<lfloor>x\<rfloor> - 1) \<le> x \<and> x < 2 powi (bitlen \<lfloor>x\<rfloor> - 1 + 1)"
proof -
  let ?n = "\<lfloor>x\<rfloor>"
  from assms have n: "0 < ?n" by simp
  from bitlen_bounds [OF n] have b: "2 ^ nat (bitlen ?n - 1) \<le> ?n" "?n < 2 ^ nat (bitlen ?n)"
    by auto
  from n have b1: "1 \<le> bitlen ?n"
    by (auto simp: bitlen_alt_def)
  have "(2::rat) powi (bitlen ?n - 1) = 2 ^ nat (bitlen ?n - 1)"
    using b1 by (simp add: power_int_def)
  also have "\<dots> = of_int (2 ^ nat (bitlen ?n - 1))" by simp
  also have "\<dots> \<le> of_int ?n" using b(1) by (simp only: of_int_le_iff)
  also have "\<dots> \<le> x" by simp
  finally have lo: "2 powi (bitlen ?n - 1) \<le> x" .
  have "?n + 1 \<le> 2 ^ nat (bitlen ?n)" using b(2) by simp
  then have "(of_int (?n + 1) :: rat) \<le> of_int (2 ^ nat (bitlen ?n))"
    by (simp only: of_int_le_iff)
  moreover have "x < of_int (?n + 1)" by linarith
  ultimately have "x < of_int (2 ^ nat (bitlen ?n))" by linarith
  also have "\<dots> = 2 powi (bitlen ?n - 1 + 1)"
    using b1 by (simp add: power_int_def)
  finally show ?thesis using lo by simp
qed

lemma floor_log2_lt1:
  assumes "0 < (x::rat)" "x < 1"
  shows "2 powi (- bitlen (\<lceil>1 / x\<rceil> - 1)) \<le> x \<and> x < 2 powi (- bitlen (\<lceil>1 / x\<rceil> - 1) + 1)"
proof -
  let ?y = "1 / x"
  let ?c = "\<lceil>?y\<rceil>"
  let ?k = "bitlen (?c - 1)"
  from assms have y: "1 < ?y" by simp
  then have c: "2 \<le> ?c" by linarith
  then have c1: "0 < ?c - 1" by simp
  from bitlen_bounds [OF c1] have b: "2 ^ nat (?k - 1) \<le> ?c - 1" "?c - 1 < 2 ^ nat ?k"
    by auto
  from c1 have k1: "1 \<le> ?k" by (auto simp: bitlen_alt_def)
  have "?c \<le> 2 ^ nat ?k" using b(2) by simp
  then have "(of_int ?c :: rat) \<le> of_int (2 ^ nat ?k)" by (simp only: of_int_le_iff)
  then have "(of_int ?c :: rat) \<le> 2 ^ nat ?k" by simp
  moreover have "?y \<le> of_int ?c" by (rule le_of_int_ceiling)
  ultimately have yle: "?y \<le> 2 ^ nat ?k" by (rule order_trans [rotated])
  have "(of_int (2 ^ nat (?k - 1)) :: rat) \<le> of_int (?c - 1)" using b(1) by (simp only: of_int_le_iff)
  then have "(2::rat) ^ nat (?k - 1) \<le> of_int (?c - 1)" by simp
  moreover have "of_int (?c - 1) < ?y" by linarith
  ultimately have ygt: "2 ^ nat (?k - 1) < ?y" by (rule le_less_trans)
  have p: "(0::rat) < 2 ^ nat ?k" "(0::rat) < 2 ^ nat (?k - 1)" by simp_all
  from yle assms(1) have "1 \<le> 2 ^ nat ?k * x"
    by (simp add: field_simps)
  then have lo: "1 / 2 ^ nat ?k \<le> x"
    using p(1) by (simp add: field_simps)
  from ygt assms(1) have "2 ^ nat (?k - 1) * x < 1"
    by (simp add: field_simps)
  then have hi: "x < 1 / 2 ^ nat (?k - 1)"
    using p(2) by (simp add: field_simps)
  have e1: "(2::rat) powi (- ?k) = 1 / 2 ^ nat ?k"
    using k1 by (simp add: power_int_def inverse_eq_divide power_one_over)
  have e2: "(2::rat) powi (- ?k + 1) = 1 / 2 ^ nat (?k - 1)"
  proof -
    have "- ?k + 1 = - (?k - 1)" by simp
    then have "(2::rat) powi (- ?k + 1) = 2 powi (- (?k - 1))" by simp
    also have "\<dots> = 1 / 2 powi (?k - 1)" by (rule power_int_minus_divide)
    also have "\<dots> = 1 / 2 ^ nat (?k - 1)" using k1 by (simp add: power_int_def)
    finally show ?thesis .
  qed
  show ?thesis using lo hi e1 e2 by simp
qed

lemma floor_log2_bounds:
  "0 < x \<Longrightarrow> 2 powi floor_log2 x \<le> x \<and> x < 2 powi (floor_log2 x + 1)"
  using floor_log2_ge1 [of x] floor_log2_lt1 [of x]
  by (cases "1 \<le> x") (simp_all add: floor_log2_def)

lemma pow2_less_exp: "(2::rat) powi a < 2 powi b \<Longrightarrow> a < b"
proof (rule ccontr)
  assume lt: "(2::rat) powi a < 2 powi b" and "\<not> a < b"
  then have "b \<le> a" by simp
  then have "(2::rat) powi b \<le> 2 powi a"
    by (intro power_int_increasing) simp_all
  with lt show False by simp
qed

lemma floor_log2_unique:
  assumes "0 < x" "2 powi e \<le> x" "x < 2 powi (e + 1)"
  shows "floor_log2 x = e"
proof -
  let ?d = "floor_log2 x"
  from floor_log2_bounds [OF assms(1)] have b: "2 powi ?d \<le> x" "x < 2 powi (?d + 1)" by auto
  have "(2::rat) powi e < 2 powi (?d + 1)" using assms(2) b(2) by simp
  then have "e < ?d + 1" by (rule pow2_less_exp)
  moreover have "(2::rat) powi ?d < 2 powi (e + 1)" using assms(3) b(1) by simp
  then have "?d < e + 1" by (rule pow2_less_exp)
  ultimately show ?thesis by simp
qed

lemma round_half_even_int: "round_half_even (of_int k) = k"
  by (simp add: round_half_even_def)

lemma round_half_even_ge: "\<lfloor>m\<rfloor> \<le> round_half_even m"
  by (simp add: round_half_even_def Let_def)

lemma round_positive_eq:
  assumes "0 < x" "2 powi e \<le> x" "x < 2 powi (e + 1)"
  shows "round_positive x =
     (let ulp = 2 powi (max e (- 1022) - 52);
          v = of_int (round_half_even (x / ulp)) * ulp
      in if 2 powi 1024 \<le> v then PosInfinity else Fin v)"
  using floor_log2_unique [OF assms] by (simp add: round_positive_def)

lemma binary64_of_nat:
  assumes "n < 2 ^ 53"
  shows "binary64 (of_nat n) = Fin (of_nat n)"
proof (cases "n = 0")
  case True
  then show ?thesis by (simp add: binary64_def)
next
  case False
  let ?x = "of_nat n :: rat"
  let ?e = "floor_log2 ?x"
  from False have pos: "0 < ?x" by simp
  from floor_log2_bounds [OF pos] have b: "2 powi ?e \<le> ?x" "?x < 2 powi (?e + 1)" by auto
  have "(2::rat) powi 0 \<le> ?x" using False by simp
  from this b(2) have "(2::rat) powi 0 < 2 powi (?e + 1)" by (rule le_less_trans)
  then have e0: "0 \<le> ?e" using pow2_less_exp by fastforce
  have "?x < 2 ^ 53" using assms by (metis of_nat_less_iff of_nat_numeral of_nat_power)
  then have "?x < 2 powi 53" by simp
  from b(1) this have "(2::rat) powi ?e < 2 powi 53" by (rule le_less_trans)
  then have e53: "?e < 53" by (rule pow2_less_exp)
  let ?k = "nat (52 - ?e)"
  have ulp: "(2::rat) powi (?e - 52) = 1 / 2 ^ ?k"
  proof -
    have "?e - 52 = - (52 - ?e)" by simp
    then have "(2::rat) powi (?e - 52) = 2 powi (- (52 - ?e))" by simp
    also have "\<dots> = 1 / 2 powi (52 - ?e)" by (rule power_int_minus_divide)
    also have "\<dots> = 1 / 2 ^ ?k" using e53 by (simp add: power_int_def)
    finally show ?thesis .
  qed
  have m: "?x / (2 powi (?e - 52)) = of_int (int n * 2 ^ ?k)"
    by (simp add: ulp)
  have v: "of_int (round_half_even (?x / (2 powi (?e - 52)))) * (2::rat) powi (?e - 52) = ?x"
    unfolding m round_half_even_int by (simp add: ulp)
  have small: "\<not> (2::rat) powi 1024 \<le> ?x"
  proof -
    have "?x < 2 ^ 53" by fact
    also have "(2::rat) ^ 53 \<le> 2 ^ 1024" by (rule power_increasing) simp_all
    finally show ?thesis by simp
  qed
  have "max ?e (- 1022) = ?e" using e0 by simp
  then have "round_positive ?x = Fin ?x"
    using v small by (simp add: round_positive_def Let_def)
  with pos show ?thesis by (simp add: binary64_def)
qed

lemma binary64_overflow:
  assumes "2 powi 1024 \<le> x"
  shows "binary64 x = PosInfinity"
proof -
  have p: "(0::rat) < 2 powi 1024" by simp
  from p assms have pos: "0 < x" by (rule less_le_trans)
  let ?e = "floor_log2 x"
  from floor_log2_bounds [OF pos] have b: "2 powi ?e \<le> x" "x < 2 powi (?e + 1)" by auto
  from assms b(2) have "(2::rat) powi 1024 < 2 powi (?e + 1)" by (rule le_less_trans)
  then have "1024 < ?e + 1" by (rule pow2_less_exp)
  then have e: "1024 \<le> ?e" by simp
  let ?ulp = "(2::rat) powi (?e - 52)"
  have ulp0: "0 < ?ulp" by simp
  have split: "(2::rat) powi ?e = 2 ^ 52 * ?ulp"
  proof -
    have "(2::rat) powi ?e = 2 powi (52 + (?e - 52))" by simp
    also have "\<dots> = 2 powi 52 * ?ulp" by (subst power_int_add) simp_all
    finally show ?thesis by simp
  qed
  have "2 ^ 52 * ?ulp \<le> x" using b(1) split by simp
  then have "2 ^ 52 \<le> x / ?ulp" using ulp0 by (simp add: field_simps)
  then have "(of_int (2 ^ 52) :: rat) \<le> x / ?ulp" by simp
  then have "2 ^ 52 \<le> \<lfloor>x / ?ulp\<rfloor>" by (simp only: le_floor_iff)
  from this round_half_even_ge [of "x / ?ulp"] have "2 ^ 52 \<le> round_half_even (x / ?ulp)"
    by (rule order_trans)
  then have "(of_int (2 ^ 52) :: rat) \<le> of_int (round_half_even (x / ?ulp))"
    by (simp only: of_int_le_iff)
  then have "2 ^ 52 * ?ulp \<le> of_int (round_half_even (x / ?ulp)) * ?ulp"
    using ulp0 by simp
  then have "(2::rat) powi ?e \<le> of_int (round_half_even (x / ?ulp)) * ?ulp"
    using split by simp
  moreover have "(2::rat) powi 1024 \<le> 2 powi ?e"
    using e by (intro power_int_increasing) simp_all
  ultimately have big: "(2::rat) powi 1024 \<le> of_int (round_half_even (x / ?ulp)) * ?ulp"
    by (rule order_trans [rotated])
  have "max ?e (- 1022) = ?e" using e by simp
  then have "round_positive x = PosInfinity"
    using big by (simp add: round_positive_def Let_def)
  with pos show ?thesis by (simp add: binary64_def)
qed

lemma binary64_minus: "binary64 (- x) = negate (binary64 x)"
  by (cases "round_positive x"; cases "round_positive (- x)") (auto simp: binary64_def)

lemma floor_rat_numeral: "\<lfloor>(numeral a :: rat) / numeral b\<rfloor> = numeral a div numeral b"
  using floor_divide_of_int_eq [of "numeral a" "numeral b", where ?'a = rat] by simp

lemma binary64_numeral:
  "numeral k < (2::nat) ^ 53 \<Longrightarrow> binary64 (numeral k) = Fin (numeral k)"
  using binary64_of_nat [of "numeral k"] by simp

lemma binary64_0_1: "binary64 0 = Fin 0" "binary64 1 = Fin 1"
  using binary64_of_nat [of 0] binary64_of_nat [of 1] by simp_all

text \<open>The number values of some mathematical values that are not small integers.\<close>

lemma binary64_examples:
  "binary64 (35 / 2) = Fin (35 / 2)"
  "binary64 (5 / 2) = Fin (5 / 2)"
  "binary64 (180000000000000000001 / 10000000000000000000) = Fin 18"
  "binary64 (1 / 10) = Fin (3602879701896397 / 36028797018963968)"
  "binary64 (10 ^ 309) = PosInfinity"
  "binary64 9007199254740993 = Fin 9007199254740992"
  "binary64 9007199254740995 = Fin 9007199254740996"
proof -
  have "round_positive (35 / 2) = Fin (35 / 2)"
    by (subst round_positive_eq [of _ 4])
      (simp_all add: round_half_even_def Let_def floor_rat_numeral)
  then show "binary64 (35 / 2) = Fin (35 / 2)"
    by (simp add: binary64_def)
  have "round_positive (5 / 2) = Fin (5 / 2)"
    by (subst round_positive_eq [of _ 1])
      (simp_all add: round_half_even_def Let_def floor_rat_numeral)
  then show "binary64 (5 / 2) = Fin (5 / 2)"
    by (simp add: binary64_def)
  have "round_positive (180000000000000000001 / 10000000000000000000) = Fin 18"
    by (subst round_positive_eq [of _ 4])
      (simp_all add: round_half_even_def Let_def floor_rat_numeral)
  then show "binary64 (180000000000000000001 / 10000000000000000000) = Fin 18"
    by (simp add: binary64_def)
  have "round_positive (1 / 10) = Fin (3602879701896397 / 36028797018963968)"
    by (subst round_positive_eq [of _ "- 4"])
      (simp_all add: round_half_even_def Let_def floor_rat_numeral)
  then show "binary64 (1 / 10) = Fin (3602879701896397 / 36028797018963968)"
    by (simp add: binary64_def)
  show "binary64 (10 ^ 309) = PosInfinity"
    by (rule binary64_overflow) simp
  have "round_positive 9007199254740993 = Fin 9007199254740992"
    by (subst round_positive_eq [of _ 53])
      (simp_all add: round_half_even_def Let_def floor_rat_numeral)
  then show "binary64 9007199254740993 = Fin 9007199254740992"
    by (simp add: binary64_def)
  have "round_positive 9007199254740995 = Fin 9007199254740996"
    by (subst round_positive_eq [of _ 53])
      (simp_all add: round_half_even_def Let_def floor_rat_numeral)
  then show "binary64 9007199254740995 = Fin 9007199254740996"
    by (simp add: binary64_def)
qed

subsection \<open>Decimal digits as text\<close>

lemma digit_not_space: "isDigit c \<Longrightarrow> \<not> isWhiteSpace c"
  by (auto simp: isDigit_def isWhiteSpace_def word_le_nat_alt)

lemma trim_unchanged:
  assumes "s \<noteq> []" "\<not> isWhiteSpace (hd s)" "\<not> isWhiteSpace (last s)"
  shows "trim s = s"
proof -
  from assms have "dropWhile isWhiteSpace s = s"
    by (cases s) simp_all
  moreover have "dropWhile isWhiteSpace (rev s) = rev s"
  proof -
    from assms(1) obtain xs x where s: "s = xs @ [x]"
      by (cases s rule: rev_cases) auto
    with assms(3) show ?thesis
      by simp
  qed
  ultimately show ?thesis
    by (simp add: trim_def)
qed

lemma digits_unsigned:
  assumes "ds \<noteq> []" "list_all isDigit ds"
  shows "StrUnsignedDecimalLiteral ds = binary64 (of_nat (radix_value 10 ds))"
proof -
  from assms have all: "\<forall>c \<in> set ds. isDigit c"
    by (simp add: list_all_iff)
  then have tw: "takeWhile isDigit ds = ds" "dropWhile isDigit ds = []"
    by simp_all
  have "\<not> isDigit 0x49"
    by (simp add: isDigit_def)
  with all have "ds \<noteq> js ''Infinity''"
    by (auto simp: js_def)
  then show ?thesis
    using assms(1)
    by (simp add: StrUnsignedDecimalLiteral_def Let_def ExponentPart_def scale10_def tw)
qed

lemma digits_StringToNumber:
  assumes "ds \<noteq> []" "list_all isDigit ds"
  shows "StringToNumber ds = binary64 (of_nat (radix_value 10 ds))"
    and "StringToNumber (0x2D # ds) = negate (binary64 (of_nat (radix_value 10 ds)))"
proof -
  from assms have all: "\<forall>c \<in> set ds. isDigit c"
    by (simp add: list_all_iff)
  from assms(1) all have ends: "isDigit (hd ds)" "isDigit (last ds)"
    by simp_all
  then have t: "trim ds = ds"
    using assms(1) by (intro trim_unchanged) (simp_all add: digit_not_space)
  have minus: "\<not> isWhiteSpace 0x2D"
    by (simp add: isWhiteSpace_def)
  have "\<not> isWhiteSpace (last ds)"
    using ends(2) by (rule digit_not_space)
  then have t': "trim (0x2D # ds) = 0x2D # ds"
    using assms(1) minus by (intro trim_unchanged) simp_all
  obtain c cs where ds: "ds = c # cs"
    using assms(1) by (cases ds) auto
  with all have c: "isDigit c" by simp
  then have sign: "c \<noteq> 0x2B" "c \<noteq> 0x2D"
    by (auto simp: isDigit_def)
  have prefix: "\<not> (c = 0x30 \<and> (x = 0x78 \<or> x = 0x58 \<or> x = 0x6F \<or> x = 0x4F \<or> x = 0x62 \<or> x = 0x42))"
    if "isDigit x" for x
    using that by (auto simp: isDigit_def)
  have dec: "StrDecimalLiteral ds = StrUnsignedDecimalLiteral ds"
    using sign by (simp add: StrDecimalLiteral_def ds)
  have "StringToNumber ds = StrDecimalLiteral ds"
  proof (cases cs)
    case Nil
    then show ?thesis using t by (simp add: StringToNumber_def ds)
  next
    case (Cons x xs)
    with all ds have "isDigit x" by simp
    from prefix [OF this] show ?thesis
      using t Cons by (auto simp: StringToNumber_def ds)
  qed
  with dec digits_unsigned [OF assms]
  show "StringToNumber ds = binary64 (of_nat (radix_value 10 ds))"
    by simp
  have "StringToNumber (0x2D # ds) = StrDecimalLiteral (0x2D # ds)"
    using t' by (simp add: StringToNumber_def ds)
  also have "\<dots> = negate (StrUnsignedDecimalLiteral ds)"
    by (simp add: StrDecimalLiteral_def)
  finally show "StringToNumber (0x2D # ds) = negate (binary64 (of_nat (radix_value 10 ds)))"
    using digits_unsigned [OF assms] by simp
qed

lemma digit_char:
  assumes "d < 10"
  shows "isDigit (of_nat (48 + d))" and "digit_value (of_nat (48 + d) :: 16 word) = Some d"
proof -
  from assms have "d \<in> {0, 1, 2, 3, 4, 5, 6, 7, 8, 9}"
    by auto
  then show "isDigit (of_nat (48 + d))" and "digit_value (of_nat (48 + d) :: 16 word) = Some d"
    by (auto simp: isDigit_def digit_value_def)
qed

lemma radix_value_snoc:
  "radix_value b (ds @ [c]) =
     radix_value b ds * b + (case digit_value c of None \<Rightarrow> 0 | Some d \<Rightarrow> d)"
  by (simp add: radix_value_def)

lemma Number_toString_digits:
  "Number_toString n \<noteq> [] \<and> list_all isDigit (Number_toString n) \<and>
   radix_value 10 (Number_toString n) = n"
proof (induction n rule: Number_toString.induct)
  case (1 n)
  show ?case
  proof (cases "n < 10")
    case True
    then have "Number_toString n = [of_nat (48 + n)]"
      by (subst Number_toString.simps) simp
    with digit_char [OF True] show ?thesis
      by (simp add: radix_value_def)
  next
    case False
    then have eq: "Number_toString n =
        Number_toString (n div 10) @ [of_nat (48 + n mod 10)]"
      by (subst Number_toString.simps) simp
    have d: "n mod 10 < 10" by simp
    from 1 [OF False] digit_char [OF d] show ?thesis
      unfolding eq by (simp add: radix_value_snoc)
  qed
qed

lemma ToNumber_digits:
  assumes "n < 2 ^ 53"
  shows "ToNumber (Str (Number_toString n)) = Fin (of_nat n)"
    and "ToNumber (Str (0x2D # Number_toString n)) = Fin (- of_nat n)"
  using Number_toString_digits [of n] digits_StringToNumber [of "Number_toString n"]
    binary64_of_nat [OF assms]
  by simp_all

section \<open>Properties of the validator\<close>

lemmas number_defs =
  StringToNumber_def StrDecimalLiteral_def StrUnsignedDecimalLiteral_def ExponentPart_def
  SignedInteger_def scale10_def NonDecimalIntegerLiteral_def radix_value_def in_radix_def
  digit_value_def isDigit_def js_def trim_def isWhiteSpace_def binary64_numeral binary64_0_1

lemma z_coerce_number_ok:
  "ToNumber v = Fin q \<Longrightarrow> \<forall>c \<in> set cs. number_issue (Fin q) c = [] \<Longrightarrow>
   z_coerce_number f cs v = Inr (Fin q)"
  by (simp add: z_coerce_number_def z_number_def Let_def)

lemma z_coerce_number_min:
  assumes "ToNumber v = Fin q" and "q < b" and "MinValue b msg \<in> set cs"
  shows "\<exists>is. z_coerce_number f cs v = Inl is \<and> TooSmall msg \<in> set is"
proof -
  from assms have "TooSmall msg \<in> set (concat (map (number_issue (Fin q)) cs))"
    by (auto intro!: bexI [of _ "MinValue b msg"])
  moreover from this have "concat (map (number_issue (Fin q)) cs) \<noteq> []"
    by (metis empty_iff empty_set)
  ultimately show ?thesis
    using assms by (simp add: z_coerce_number_def z_number_def Let_def)
qed

lemma z_coerce_number_max:
  assumes "ToNumber v = Fin q" and "b < q" and "MaxValue b msg \<in> set cs"
  shows "\<exists>is. z_coerce_number f cs v = Inl is \<and> TooBig msg \<in> set is"
proof -
  from assms have "TooBig msg \<in> set (concat (map (number_issue (Fin q)) cs))"
    by (auto intro!: bexI [of _ "MaxValue b msg"])
  moreover from this have "concat (map (number_issue (Fin q)) cs) \<noteq> []"
    by (metis empty_iff empty_set)
  ultimately show ?thesis
    using assms by (simp add: z_coerce_number_def z_number_def Let_def)
qed

lemma z_coerce_number_nan:
  "ToNumber v = NaN \<Longrightarrow> z_coerce_number f cs v = Inl [InvalidType]"
  by (simp add: z_coerce_number_def z_number_def)

lemma z_string_ok:
  "\<forall>c \<in> set cs. string_issue s c = [] \<Longrightarrow> z_string cs (Str s) = Inr s"
  by (simp add: z_string_def Let_def)

lemma z_string_min:
  assumes "length s < k" and "MinLength k msg \<in> set cs"
  shows "\<exists>is. z_string cs (Str s) = Inl is \<and> TooSmall msg \<in> set is"
proof -
  from assms have "TooSmall msg \<in> set (concat (map (string_issue s) cs))"
    by (auto intro!: bexI [of _ "MinLength k msg"])
  moreover from this have "concat (map (string_issue s) cs) \<noteq> []"
    by (metis empty_iff empty_set)
  ultimately show ?thesis
    by (simp add: z_string_def Let_def)
qed

lemma z_string_max:
  assumes "k < length s" and "MaxLength k msg \<in> set cs"
  shows "\<exists>is. z_string cs (Str s) = Inl is \<and> TooBig msg \<in> set is"
proof -
  from assms have "TooBig msg \<in> set (concat (map (string_issue s) cs))"
    by (auto intro!: bexI [of _ "MaxLength k msg"])
  moreover from this have "concat (map (string_issue s) cs) \<noteq> []"
    by (metis empty_iff empty_set)
  ultimately show ?thesis
    by (simp add: z_string_def Let_def)
qed

text \<open>A field that fails makes the object fail, with the field's issues under its name.\<close>

lemma childSchema_field_fails:
  assumes "schema_fullName (raw_fullName raw) = Inl is \<and> p = FullName \<or>
           schema_age f (raw_age raw) = Inl is \<and> p = Age \<or>
           schema_height f (raw_height raw) = Inl is \<and> p = Height \<or>
           schema_weight f (raw_weight raw) = Inl is \<and> p = Weight \<or>
           schema_gender (raw_gender raw) = Inl is \<and> p = Gender \<or>
           schema_medicalNotes (raw_medicalNotes raw) = Inl is \<and> p = MedicalNotes"
    and "i \<in> set is"
  shows "\<exists>es. childSchema f raw = Inl es \<and> (p, i) \<in> set es"
  using assms
  by (auto simp: childSchema_def Let_def at_path_def split: sum.splits)

lemma childSchema_all_ok:
  assumes "schema_fullName (raw_fullName raw) = Inr n"
    and "schema_age f (raw_age raw) = Inr a"
    and "schema_height f (raw_height raw) = Inr h"
    and "schema_weight f (raw_weight raw) = Inr w"
    and "schema_gender (raw_gender raw) = Inr g"
    and "schema_medicalNotes (raw_medicalNotes raw) = Inr m"
  shows "childSchema f raw =
         Inr \<lparr>fullName = n, age = a, height = h, weight = w, gender = g, medicalNotes = m\<rparr>"
  using assms by (simp add: childSchema_def)

lemma schema_age_ok:
  "ToNumber v = Fin a \<Longrightarrow> 0 \<le> a \<Longrightarrow> a \<le> 18 \<Longrightarrow> schema_age f v = Inr (Fin a)"
  unfolding schema_age_def by (rule z_coerce_number_ok) auto

lemma schema_height_ok:
  "ToNumber v = Fin h \<Longrightarrow> 30 \<le> h \<Longrightarrow> h \<le> 250 \<Longrightarrow> schema_height f v = Inr (Fin h)"
  unfolding schema_height_def by (rule z_coerce_number_ok) auto

lemma schema_weight_ok:
  "ToNumber v = Fin w \<Longrightarrow> 2 \<le> w \<Longrightarrow> schema_weight f v = Inr (Fin w)"
  unfolding schema_weight_def by (rule z_coerce_number_ok) auto

lemma schema_fullName_ok:
  "2 \<le> length n \<Longrightarrow> schema_fullName (Str n) = Inr n"
  unfolding schema_fullName_def by (rule z_string_ok) auto

lemma schema_gender_ok: "schema_gender (optional_text g) = Inr g"
  by (cases g) (simp_all add: schema_gender_def z_optional_def z_string_def)

lemma schema_medicalNotes_ok:
  "(case m of None \<Rightarrow> True | Some t \<Rightarrow> length t \<le> 300) \<Longrightarrow>
   schema_medicalNotes (optional_text m) = Inr m"
  by (cases m) (simp_all add: schema_medicalNotes_def z_optional_def z_string_def)

lemma schema_medicalNotes_long:
  assumes "300 < length t"
  shows "\<exists>is. schema_medicalNotes (Str t) = Inl is \<and>
           TooBig (js ''Notes are too long (max 300 chars)'') \<in> set is"
  using z_string_max [OF assms, of "js ''Notes are too long (max 300 chars)''"
      "[MaxLength 300 (js ''Notes are too long (max 300 chars)'')]"]
  by (auto simp: schema_medicalNotes_def z_optional_def)

text \<open>
  C6: a raw input whose name has at least 2 code units and whose age, height and weight
  convert to numbers in [0,18], [30,250] and [2,\<infinity>) validates, with the converted numbers
  in the result (the optional fields being absent or text, the notes of at most 300 code
  units). A numeric field outside its bound in either direction (so also one unit outside
  it), a name of fewer than 2 code units and notes of more than 300 code units each make
  validation fail with an issue under that field's name, whatever the other fields hold.
  Numeric text is converted first: the decimal digits of a natural number below \<open>2^53\<close>
  (with a minus sign, its negative) convert to that number, so the laws hold for typed
  digits; a literal with a fraction or an exponent converts to the binary64 value nearest
  to it (\<open>18.0000000000000000001\<close> is 18 and is accepted as an age, \<open>1e309\<close> is
  \<open>Infinity\<close>, which the validator refuses when it admits finite numbers only), and text
  that is no numeric literal is \<open>NaN\<close>. A value half way between two binary64 values goes
  to the one with the even significand.
\<close>

theorem childSchema_range_laws:
  "(raw_fullName raw = Str n \<and> 2 \<le> length n \<and>
    ToNumber (raw_age raw) = Fin a \<and> 0 \<le> a \<and> a \<le> 18 \<and>
    ToNumber (raw_height raw) = Fin h \<and> 30 \<le> h \<and> h \<le> 250 \<and>
    ToNumber (raw_weight raw) = Fin w \<and> 2 \<le> w \<and>
    raw_gender raw = optional_text g \<and>
    raw_medicalNotes raw = optional_text m \<and>
    (case m of None \<Rightarrow> True | Some t \<Rightarrow> length t \<le> 300)
    \<longrightarrow> childSchema f raw =
          Inr \<lparr>fullName = n, age = Fin a, height = Fin h, weight = Fin w, gender = g,
               medicalNotes = m\<rparr>) \<and>
   (ToNumber (raw_age raw) = Fin a \<and> a < 0
    \<longrightarrow> (\<exists>es. childSchema f raw = Inl es \<and>
              (Age, TooSmall (js ''Age cannot be negative'')) \<in> set es)) \<and>
   (ToNumber (raw_age raw) = Fin a \<and> 18 < a
    \<longrightarrow> (\<exists>es. childSchema f raw = Inl es \<and>
              (Age, TooBig (js ''Must be under 18'')) \<in> set es)) \<and>
   (ToNumber (raw_height raw) = Fin h \<and> h < 30
    \<longrightarrow> (\<exists>es. childSchema f raw = Inl es \<and>
              (Height, TooSmall (js ''Height (cm) seems too low'')) \<in> set es)) \<and>
   (ToNumber (raw_height raw) = Fin h \<and> 250 < h
    \<longrightarrow> (\<exists>es. childSchema f raw = Inl es \<and>
              (Height, TooBig (js ''Height seems too high'')) \<in> set es)) \<and>
   (ToNumber (raw_weight raw) = Fin w \<and> w < 2
    \<longrightarrow> (\<exists>es. childSchema f raw = Inl es \<and>
              (Weight, TooSmall (js ''Weight (kg) seems too low'')) \<in> set es)) \<and>
   (raw_fullName raw = Str n \<and> length n < 2
    \<longrightarrow> (\<exists>es. childSchema f raw = Inl es \<and>
              (FullName, TooSmall (js ''Name must be at least 2 characters'')) \<in> set es)) \<and>
   (raw_medicalNotes raw = Str t \<and> 300 < length t
    \<longrightarrow> (\<exists>es. childSchema f raw = Inl es \<and>
              (MedicalNotes, TooBig (js ''Notes are too long (max 300 chars)'')) \<in> set es)) \<and>
   (\<forall>k. k < 2 ^ 53 \<longrightarrow>
      ToNumber (Str (Number_toString k)) = Fin (of_nat k) \<and>
      ToNumber (Str (0x2D # Number_toString k)) = Fin (- of_nat k)) \<and>
   (2 \<le> length n \<and> ka \<le> 18 \<and> 30 \<le> kh \<and> kh \<le> 250 \<and> 2 \<le> kw \<and> kw < 2 ^ 53 \<and>
    (case m of None \<Rightarrow> True | Some t \<Rightarrow> length t \<le> 300)
    \<longrightarrow> childSchema f
          \<lparr>raw_fullName = Str n, raw_age = Str (Number_toString ka),
           raw_height = Str (Number_toString kh), raw_weight = Str (Number_toString kw),
           raw_gender = optional_text g, raw_medicalNotes = optional_text m\<rparr> =
          Inr \<lparr>fullName = n, age = Fin (of_nat ka), height = Fin (of_nat kh),
               weight = Fin (of_nat kw), gender = g, medicalNotes = m\<rparr>) \<and>
   ToNumber (Str (js ''17.5'')) = Fin (35 / 2) \<and>
   ToNumber (Str (js '' 1.1e2 '')) = Fin 110 \<and>
   ToNumber (Str (js ''25e-1'')) = Fin (5 / 2) \<and>
   ToNumber (Str (js ''0x1F'')) = Fin 31 \<and>
   ToNumber (Str (js ''18.0000000000000000001'')) = Fin 18 \<and>
   ToNumber (Str (js ''1e309'')) = PosInfinity \<and>
   ToNumber (Str (js ''7kg'')) = NaN \<and>
   childSchema f (typed_form ''Al'' ''18.0000000000000000001'' ''110'' ''18'') =
     Inr \<lparr>fullName = js ''Al'', age = Fin 18, height = Fin 110, weight = Fin 18,
          gender = Some [], medicalNotes = Some []\<rparr> \<and>
   childSchema True (typed_form ''Al'' ''5'' ''110'' ''1e309'') = Inl [(Weight, InvalidType)] \<and>
   childSchema False (typed_form ''Al'' ''5'' ''110'' ''1e309'') =
     Inr \<lparr>fullName = js ''Al'', age = Fin 5, height = Fin 110, weight = PosInfinity,
          gender = Some [], medicalNotes = Some []\<rparr> \<and>
   ToNumber (Str (js ''0.1'')) = Fin (3602879701896397 / 36028797018963968) \<and>
   ToNumber (Str (js ''9007199254740993'')) = Fin 9007199254740992 \<and>
   ToNumber (Str (js ''9007199254740995'')) = Fin 9007199254740996"
proof (intro conjI impI allI; (elim conjE)?)
  assume "raw_fullName raw = Str n" "2 \<le> length n"
    "ToNumber (raw_age raw) = Fin a" "0 \<le> a" "a \<le> 18"
    "ToNumber (raw_height raw) = Fin h" "30 \<le> h" "h \<le> 250"
    "ToNumber (raw_weight raw) = Fin w" "2 \<le> w"
    "raw_gender raw = optional_text g"
    "raw_medicalNotes raw = optional_text m"
    "case m of None \<Rightarrow> True | Some t \<Rightarrow> length t \<le> 300"
  then show "childSchema f raw =
      Inr \<lparr>fullName = n, age = Fin a, height = Fin h, weight = Fin w, gender = g,
           medicalNotes = m\<rparr>"
    by (intro childSchema_all_ok)
      (simp_all add: schema_fullName_ok schema_age_ok schema_height_ok schema_weight_ok
        schema_gender_ok schema_medicalNotes_ok)
next
  assume "ToNumber (raw_age raw) = Fin a" "a < 0"
  then obtain "is" where "schema_age f (raw_age raw) = Inl is"
    "TooSmall (js ''Age cannot be negative'') \<in> set is"
    unfolding schema_age_def using z_coerce_number_min by (metis list.set_intros(1))
  then show "\<exists>es. childSchema f raw = Inl es \<and>
      (Age, TooSmall (js ''Age cannot be negative'')) \<in> set es"
    by (intro childSchema_field_fails [of _ "is"]) simp_all
next
  assume "ToNumber (raw_age raw) = Fin a" "18 < a"
  then obtain "is" where "schema_age f (raw_age raw) = Inl is"
    "TooBig (js ''Must be under 18'') \<in> set is"
    unfolding schema_age_def using z_coerce_number_max
    by (metis list.set_intros(1) list.set_intros(2))
  then show "\<exists>es. childSchema f raw = Inl es \<and>
      (Age, TooBig (js ''Must be under 18'')) \<in> set es"
    by (intro childSchema_field_fails [of _ "is"]) simp_all
next
  assume "ToNumber (raw_height raw) = Fin h" "h < 30"
  then obtain "is" where "schema_height f (raw_height raw) = Inl is"
    "TooSmall (js ''Height (cm) seems too low'') \<in> set is"
    unfolding schema_height_def using z_coerce_number_min by (metis list.set_intros(1))
  then show "\<exists>es. childSchema f raw = Inl es \<and>
      (Height, TooSmall (js ''Height (cm) seems too low'')) \<in> set es"
    by (intro childSchema_field_fails [of _ "is"]) simp_all
next
  assume "ToNumber (raw_height raw) = Fin h" "250 < h"
  then obtain "is" where "schema_height f (raw_height raw) = Inl is"
    "TooBig (js ''Height seems too high'') \<in> set is"
    unfolding schema_height_def using z_coerce_number_max
    by (metis list.set_intros(1) list.set_intros(2))
  then show "\<exists>es. childSchema f raw = Inl es \<and>
      (Height, TooBig (js ''Height seems too high'')) \<in> set es"
    by (intro childSchema_field_fails [of _ "is"]) simp_all
next
  assume "ToNumber (raw_weight raw) = Fin w" "w < 2"
  then obtain "is" where "schema_weight f (raw_weight raw) = Inl is"
    "TooSmall (js ''Weight (kg) seems too low'') \<in> set is"
    unfolding schema_weight_def using z_coerce_number_min by (metis list.set_intros(1))
  then show "\<exists>es. childSchema f raw = Inl es \<and>
      (Weight, TooSmall (js ''Weight (kg) seems too low'')) \<in> set es"
    by (intro childSchema_field_fails [of _ "is"]) simp_all
next
  assume "raw_fullName raw = Str n" "length n < 2"
  then obtain "is" where "schema_fullName (raw_fullName raw) = Inl is"
    "TooSmall (js ''Name must be at least 2 characters'') \<in> set is"
    unfolding schema_fullName_def using z_string_min by (metis list.set_intros(1))
  then show "\<exists>es. childSchema f raw = Inl es \<and>
      (FullName, TooSmall (js ''Name must be at least 2 characters'')) \<in> set es"
    by (intro childSchema_field_fails [of _ "is"]) simp_all
next
  assume "raw_medicalNotes raw = Str t" "300 < length t"
  then obtain "is" where "schema_medicalNotes (raw_medicalNotes raw) = Inl is"
    "TooBig (js ''Notes are too long (max 300 chars)'') \<in> set is"
    using schema_medicalNotes_long by metis
  then show "\<exists>es. childSchema f raw = Inl es \<and>
      (MedicalNotes, TooBig (js ''Notes are too long (max 300 chars)'')) \<in> set es"
    by (intro childSchema_field_fails [of _ "is"]) simp_all
next
  fix k :: nat
  assume "k < 2 ^ 53"
  then show "ToNumber (Str (Number_toString k)) = Fin (of_nat k)"
    and "ToNumber (Str (0x2D # Number_toString k)) = Fin (- of_nat k)"
    by (rule ToNumber_digits)+
next
  assume a: "2 \<le> length n" "ka \<le> 18" "30 \<le> kh" "kh \<le> 250" "2 \<le> kw" "kw < 2 ^ 53"
    "case m of None \<Rightarrow> True | Some t \<Rightarrow> length t \<le> 300"
  have small: "ka < 2 ^ 53" "kh < 2 ^ 53"
    using a(2,4) by simp_all
  show "childSchema f
          \<lparr>raw_fullName = Str n, raw_age = Str (Number_toString ka),
           raw_height = Str (Number_toString kh), raw_weight = Str (Number_toString kw),
           raw_gender = optional_text g, raw_medicalNotes = optional_text m\<rparr> =
          Inr \<lparr>fullName = n, age = Fin (of_nat ka), height = Fin (of_nat kh),
               weight = Fin (of_nat kw), gender = g, medicalNotes = m\<rparr>"
    using a ToNumber_digits(1) [OF small(1)] ToNumber_digits(1) [OF small(2)]
      ToNumber_digits(1) [OF a(6)]
    by (intro childSchema_all_ok)
      (simp_all add: schema_fullName_ok schema_age_ok schema_height_ok schema_weight_ok
        schema_gender_ok schema_medicalNotes_ok)
next
  show "ToNumber (Str (js ''17.5'')) = Fin (35 / 2)"
    by (simp add: number_defs binary64_examples)
  show "ToNumber (Str (js '' 1.1e2 '')) = Fin 110"
    by (simp add: number_defs)
  show "ToNumber (Str (js ''25e-1'')) = Fin (5 / 2)"
    by (simp add: number_defs binary64_examples)
  show "ToNumber (Str (js ''0x1F'')) = Fin 31"
    by (simp add: number_defs)
  show old: "ToNumber (Str (js ''18.0000000000000000001'')) = Fin 18"
    by (simp add: number_defs binary64_examples)
  show big: "ToNumber (Str (js ''1e309'')) = PosInfinity"
    by (simp add: number_defs binary64_overflow)
  show "ToNumber (Str (js ''7kg'')) = NaN"
    by (simp add: number_defs)
  have five: "ToNumber (Str (js ''5'')) = Fin 5" "ToNumber (Str (js ''110'')) = Fin 110"
    "ToNumber (Str (js ''18'')) = Fin 18"
    by (simp_all add: number_defs)
  show "childSchema f (typed_form ''Al'' ''18.0000000000000000001'' ''110'' ''18'') =
     Inr \<lparr>fullName = js ''Al'', age = Fin 18, height = Fin 110, weight = Fin 18,
          gender = Some [], medicalNotes = Some []\<rparr>"
    using old five
    by (intro childSchema_all_ok)
      (simp_all add: typed_form_def schema_age_ok schema_height_ok schema_weight_ok
        schema_gender_def schema_medicalNotes_def schema_fullName_def z_string_def
        z_optional_def js_def)
  show "childSchema True (typed_form ''Al'' ''5'' ''110'' ''1e309'') =
      Inl [(Weight, InvalidType)]"
    using big five
    by (simp add: childSchema_def typed_form_def schema_age_ok schema_height_ok
        schema_weight_def z_coerce_number_def z_number_def schema_gender_def
        schema_medicalNotes_def schema_fullName_def z_string_def z_optional_def at_path_def
        js_def)
  show "childSchema False (typed_form ''Al'' ''5'' ''110'' ''1e309'') =
     Inr \<lparr>fullName = js ''Al'', age = Fin 5, height = Fin 110, weight = PosInfinity,
          gender = Some [], medicalNotes = Some []\<rparr>"
    using big five
    by (intro childSchema_all_ok)
      (simp_all add: typed_form_def schema_age_ok schema_height_ok
        schema_weight_def z_coerce_number_def z_number_def schema_gender_def
        schema_medicalNotes_def schema_fullName_def z_string_def z_optional_def js_def)
  show "ToNumber (Str (js ''0.1'')) = Fin (3602879701896397 / 36028797018963968)"
    by (simp add: number_defs binary64_examples)
  show "ToNumber (Str (js ''9007199254740993'')) = Fin 9007199254740992"
    by (simp add: number_defs binary64_examples)
  show "ToNumber (Str (js ''9007199254740995'')) = Fin 9007199254740996"
    by (simp add: number_defs binary64_examples)
qed

theorem childSchema_range_laws_witness:
  "childSchema True (typed_form ''Al'' ''5'' ''110'' ''18'') =
     Inr \<lparr>fullName = js ''Al'', age = Fin 5, height = Fin 110, weight = Fin 18,
          gender = Some [], medicalNotes = Some []\<rparr> \<and>
   (\<exists>es. childSchema True (typed_form ''Al'' ''-1'' ''110'' ''18'') = Inl es \<and>
      (Age, TooSmall (js ''Age cannot be negative'')) \<in> set es) \<and>
   (\<exists>es. childSchema True (typed_form ''Al'' ''19'' ''110'' ''18'') = Inl es \<and>
      (Age, TooBig (js ''Must be under 18'')) \<in> set es) \<and>
   (\<exists>es. childSchema True (typed_form ''Al'' ''5'' ''29'' ''18'') = Inl es \<and>
      (Height, TooSmall (js ''Height (cm) seems too low'')) \<in> set es) \<and>
   (\<exists>es. childSchema True (typed_form ''Al'' ''5'' ''251'' ''18'') = Inl es \<and>
      (Height, TooBig (js ''Height seems too high'')) \<in> set es) \<and>
   (\<exists>es. childSchema True (typed_form ''Al'' ''5'' ''110'' ''1'') = Inl es \<and>
      (Weight, TooSmall (js ''Weight (kg) seems too low'')) \<in> set es) \<and>
   (\<exists>es. childSchema True (typed_form ''A'' ''5'' ''110'' ''18'') = Inl es \<and>
      (FullName, TooSmall (js ''Name must be at least 2 characters'')) \<in> set es) \<and>
   (\<exists>es. childSchema True
            ((typed_form ''Al'' ''5'' ''110'' ''18'')
               \<lparr>raw_medicalNotes := Str (replicate 301 0x61)\<rparr>) = Inl es \<and>
      (MedicalNotes, TooBig (js ''Notes are too long (max 300 chars)'')) \<in> set es) \<and>
   ToNumber (Str (Number_toString 250)) = Fin 250 \<and>
   ToNumber (Str (0x2D # Number_toString 1)) = Fin (- 1) \<and>
   childSchema True
     \<lparr>raw_fullName = Str (js ''Al''), raw_age = Str (Number_toString 18),
      raw_height = Str (Number_toString 30), raw_weight = Str (Number_toString 2),
      raw_gender = Undefined, raw_medicalNotes = Undefined\<rparr> =
     Inr \<lparr>fullName = js ''Al'', age = Fin 18, height = Fin 30, weight = Fin 2,
          gender = None, medicalNotes = None\<rparr>"
proof (intro conjI)
  show "childSchema True (typed_form ''Al'' ''5'' ''110'' ''18'') =
     Inr \<lparr>fullName = js ''Al'', age = Fin 5, height = Fin 110, weight = Fin 18,
          gender = Some [], medicalNotes = Some []\<rparr>"
    using childSchema_range_laws [of "typed_form ''Al'' ''5'' ''110'' ''18''" "js ''Al''"
        5 110 18 "Some []" "Some []" True, THEN conjunct1]
    by (simp add: typed_form_def number_defs)
  show "\<exists>es. childSchema True (typed_form ''Al'' ''-1'' ''110'' ''18'') = Inl es \<and>
      (Age, TooSmall (js ''Age cannot be negative'')) \<in> set es"
    using childSchema_range_laws [where raw = "typed_form ''Al'' ''-1'' ''110'' ''18''"
        and a = "-1" and f = True,
        THEN conjunct2, THEN conjunct1]
    by (simp add: typed_form_def number_defs)
  show "\<exists>es. childSchema True (typed_form ''Al'' ''19'' ''110'' ''18'') = Inl es \<and>
      (Age, TooBig (js ''Must be under 18'')) \<in> set es"
    using childSchema_range_laws [where raw = "typed_form ''Al'' ''19'' ''110'' ''18''"
        and a = 19 and f = True,
        THEN conjunct2, THEN conjunct2, THEN conjunct1]
    by (simp add: typed_form_def number_defs)
  show "\<exists>es. childSchema True (typed_form ''Al'' ''5'' ''29'' ''18'') = Inl es \<and>
      (Height, TooSmall (js ''Height (cm) seems too low'')) \<in> set es"
    using childSchema_range_laws [where raw = "typed_form ''Al'' ''5'' ''29'' ''18''"
        and h = 29 and f = True,
        THEN conjunct2, THEN conjunct2, THEN conjunct2, THEN conjunct1]
    by (simp add: typed_form_def number_defs)
  show "\<exists>es. childSchema True (typed_form ''Al'' ''5'' ''251'' ''18'') = Inl es \<and>
      (Height, TooBig (js ''Height seems too high'')) \<in> set es"
    using childSchema_range_laws [where raw = "typed_form ''Al'' ''5'' ''251'' ''18''"
        and h = 251 and f = True,
        THEN conjunct2, THEN conjunct2, THEN conjunct2, THEN conjunct2, THEN conjunct1]
    by (simp add: typed_form_def number_defs)
  show "\<exists>es. childSchema True (typed_form ''Al'' ''5'' ''110'' ''1'') = Inl es \<and>
      (Weight, TooSmall (js ''Weight (kg) seems too low'')) \<in> set es"
    using childSchema_range_laws [where raw = "typed_form ''Al'' ''5'' ''110'' ''1''"
        and w = 1 and f = True,
        THEN conjunct2, THEN conjunct2, THEN conjunct2, THEN conjunct2, THEN conjunct2, THEN conjunct1]
    by (simp add: typed_form_def number_defs)
  show "\<exists>es. childSchema True (typed_form ''A'' ''5'' ''110'' ''18'') = Inl es \<and>
      (FullName, TooSmall (js ''Name must be at least 2 characters'')) \<in> set es"
    using childSchema_range_laws [where raw = "typed_form ''A'' ''5'' ''110'' ''18''"
        and n = "js ''A''" and f = True,
        THEN conjunct2, THEN conjunct2, THEN conjunct2, THEN conjunct2, THEN conjunct2, THEN conjunct2, THEN conjunct1]
    by (simp add: typed_form_def js_def)
  show "\<exists>es. childSchema True
            ((typed_form ''Al'' ''5'' ''110'' ''18'')
               \<lparr>raw_medicalNotes := Str (replicate 301 0x61)\<rparr>) = Inl es \<and>
      (MedicalNotes, TooBig (js ''Notes are too long (max 300 chars)'')) \<in> set es"
    using childSchema_range_laws [where raw = "(typed_form ''Al'' ''5'' ''110'' ''18'')
               \<lparr>raw_medicalNotes := Str (replicate 301 0x61)\<rparr>"
        and t = "replicate 301 0x61" and f = True,
        THEN conjunct2, THEN conjunct2, THEN conjunct2, THEN conjunct2, THEN conjunct2, THEN conjunct2, THEN conjunct2, THEN conjunct1]
    by (simp add: typed_form_def)
  have digits: "\<forall>k. k < 2 ^ 53 \<longrightarrow>
      ToNumber (Str (Number_toString k)) = Fin (of_nat k) \<and>
      ToNumber (Str (0x2D # Number_toString k)) = Fin (- of_nat k)"
    by (rule childSchema_range_laws
        [THEN conjunct2, THEN conjunct2, THEN conjunct2, THEN conjunct2, THEN conjunct2,
         THEN conjunct2, THEN conjunct2, THEN conjunct2, THEN conjunct1])
  from digits [rule_format, of 250] show "ToNumber (Str (Number_toString 250)) = Fin 250"
    by simp
  from digits [rule_format, of 1] show "ToNumber (Str (0x2D # Number_toString 1)) = Fin (- 1)"
    by simp
  show "childSchema True
     \<lparr>raw_fullName = Str (js ''Al''), raw_age = Str (Number_toString 18),
      raw_height = Str (Number_toString 30), raw_weight = Str (Number_toString 2),
      raw_gender = Undefined, raw_medicalNotes = Undefined\<rparr> =
     Inr \<lparr>fullName = js ''Al'', age = Fin 18, height = Fin 30, weight = Fin 2,
          gender = None, medicalNotes = None\<rparr>"
    using childSchema_range_laws [where n = "js ''Al''" and ka = 18 and kh = 30 and kw = 2
        and g = None and m = None and f = True,
        THEN conjunct2, THEN conjunct2, THEN conjunct2, THEN conjunct2, THEN conjunct2,
        THEN conjunct2, THEN conjunct2, THEN conjunct2, THEN conjunct2, THEN conjunct1]
    by (simp add: js_def)
qed

section \<open>Properties of the store\<close>



lemma Number_toString_nonempty: "Number_toString n \<noteq> []"
  by (subst Number_toString.simps) simp

text \<open>
  C7: with only a record of the old format in the store, the first \<open>loadChildren\<close> gives
  the one-element list of that record with an identifier, stores this list and removes the
  old key; a second \<open>loadChildren\<close>, at any later clock reading, gives the same list and
  leaves the store as it is.
\<close>

theorem loadChildren_migration_idempotent:
  "loadChildren t1 \<lparr>children_list = None, child_profile = Some (Json legacy)\<rparr> =
     (\<lparr>children_list = Some (Json [legacy\<lparr>ident := Some (Number_toString t1)\<rparr>]),
       child_profile = None\<rparr>,
      [legacy\<lparr>ident := Some (Number_toString t1)\<rparr>]) \<and>
   loadChildren t2
     (fst (loadChildren t1 \<lparr>children_list = None, child_profile = Some (Json legacy)\<rparr>)) =
     (fst (loadChildren t1 \<lparr>children_list = None, child_profile = Some (Json legacy)\<rparr>),
      [legacy\<lparr>ident := Some (Number_toString t1)\<rparr>]) \<and>
   child_profile
     (fst (loadChildren t1 \<lparr>children_list = None, child_profile = Some (Json legacy)\<rparr>)) =
     None \<and>
   Number_toString t1 \<noteq> []"
  by (simp add: loadChildren_def truthy_def Let_def Number_toString_nonempty)



lemma filter_other_ids:
  "Some i \<notin> ident ` set (filter (\<lambda>c. ident c \<noteq> Some i) xs)"
  by auto

lemma filter_absent_id:
  "Some i \<notin> ident ` set xs \<Longrightarrow> filter (\<lambda>c. ident c \<noteq> Some i) xs = xs"
  by (induction xs) auto

text \<open>
  C2, as stated, fails: the stored list holds one record, with the identifier \<open>1\<close>, and the
  profile screen is asked to delete the identifier \<open>2\<close>. No record has that identifier,
  yet the handler writes the list back and reports success; it does not report that
  nothing was found.
\<close>

theorem handleDelete_counterexample:
  "handleDelete (Some (js ''2'')) Delete
     \<lparr>children_list = Some (Json [with_id (scenario_profile ''Al'') (js ''1'')]),
      child_profile = None\<rparr> =
     (\<lparr>children_list = Some (Json [with_id (scenario_profile ''Al'') (js ''1'')]),
       child_profile = None\<rparr>,
      [delete_profile_dialog, SetItem ''children_list'',
       Alert (js ''Success'') (js ''Child profile deleted''), RouterBack]) \<and>
   Some (js ''2'') \<notin> ident ` set [with_id (scenario_profile ''Al'') (js ''1'')]"
  by (simp add: handleDelete_def isEditMode_def truthy_def with_id_def js_def)

text \<open>
  C2, amended: the delete of the profile screen reports \<open>No children found\<close> exactly when
  no list is stored (the key is absent or holds the empty text) and then writes nothing; it
  reports a failure when the stored text cannot be parsed; and whenever a list is stored it
  removes every record with the given identifier, writes the remaining list back and
  reports success, whether or not a record had that identifier (if none had, the list is
  written back unchanged). The delete of the home screen, when the list the screen holds
  is the stored list, likewise removes every record with the given identifier and writes
  the remaining list back, and it has no not-found outcome.
\<close>

theorem delete_removes_matching:
  "(i \<noteq> [] \<longrightarrow>
      handleDelete (Some i) Delete s =
        (case children_list s of
           None \<Rightarrow> (s, [delete_profile_dialog, Alert (js ''Error'') (js ''No children found'')])
         | Some Blank \<Rightarrow>
             (s, [delete_profile_dialog, Alert (js ''Error'') (js ''No children found'')])
         | Some Unparsable \<Rightarrow>
             (s, [delete_profile_dialog, ConsoleError,
                  Alert (js ''Error'') (js ''Failed to delete child profile'')])
         | Some (Json xs) \<Rightarrow>
             (s\<lparr>children_list := Some (Json (filter (\<lambda>c. ident c \<noteq> Some i) xs))\<rparr>,
              [delete_profile_dialog, SetItem ''children_list'',
               Alert (js ''Success'') (js ''Child profile deleted''), RouterBack]))) \<and>
   (children_list s = Some (Json xs) \<longrightarrow>
      handleDeleteChild i name Delete xs s =
        (s\<lparr>children_list := Some (Json (filter (\<lambda>c. ident c \<noteq> Some i) xs))\<rparr>,
         filter (\<lambda>c. ident c \<noteq> Some i) xs,
         [delete_child_dialog name, SetItem ''children_list''])) \<and>
   Some i \<notin> ident ` set (filter (\<lambda>c. ident c \<noteq> Some i) xs) \<and>
   (Some i \<notin> ident ` set xs \<longrightarrow> filter (\<lambda>c. ident c \<noteq> Some i) xs = xs)"
proof (intro conjI impI)
  assume "i \<noteq> []"
  then show "handleDelete (Some i) Delete s =
        (case children_list s of
           None \<Rightarrow> (s, [delete_profile_dialog, Alert (js ''Error'') (js ''No children found'')])
         | Some Blank \<Rightarrow>
             (s, [delete_profile_dialog, Alert (js ''Error'') (js ''No children found'')])
         | Some Unparsable \<Rightarrow>
             (s, [delete_profile_dialog, ConsoleError,
                  Alert (js ''Error'') (js ''Failed to delete child profile'')])
         | Some (Json xs) \<Rightarrow>
             (s\<lparr>children_list := Some (Json (filter (\<lambda>c. ident c \<noteq> Some i) xs))\<rparr>,
              [delete_profile_dialog, SetItem ''children_list'',
               Alert (js ''Success'') (js ''Child profile deleted''), RouterBack]))"
    by (simp add: handleDelete_def isEditMode_def truthy_def Let_def
        split: option.splits stored.splits)
next
  show "handleDeleteChild i name Delete xs s =
        (s\<lparr>children_list := Some (Json (filter (\<lambda>c. ident c \<noteq> Some i) xs))\<rparr>,
         filter (\<lambda>c. ident c \<noteq> Some i) xs,
         [delete_child_dialog name, SetItem ''children_list''])"
    by (simp add: handleDeleteChild_def Let_def)
next
  show "Some i \<notin> ident ` set (filter (\<lambda>c. ident c \<noteq> Some i) xs)"
    by (rule filter_other_ids)
next
  assume "Some i \<notin> ident ` set xs"
  then show "filter (\<lambda>c. ident c \<noteq> Some i) xs = xs"
    by (rule filter_absent_id)
qed

theorem delete_removes_matching_witness:
  "handleDelete (Some (js ''1'')) Delete
     \<lparr>children_list = Some (Json [with_id (scenario_profile ''Al'') (js ''1''),
                                  with_id (scenario_profile ''Bo'') (js ''2'')]),
      child_profile = None\<rparr> =
     (\<lparr>children_list = Some (Json [with_id (scenario_profile ''Bo'') (js ''2'')]),
       child_profile = None\<rparr>,
      [delete_profile_dialog, SetItem ''children_list'',
       Alert (js ''Success'') (js ''Child profile deleted''), RouterBack]) \<and>
   filter (\<lambda>c. ident c \<noteq> Some (js ''3''))
     [with_id (scenario_profile ''Al'') (js ''1''), with_id (scenario_profile ''Bo'') (js ''2'')] =
     [with_id (scenario_profile ''Al'') (js ''1''), with_id (scenario_profile ''Bo'') (js ''2'')] \<and>
   handleDeleteChild (js ''1'') (js ''Al'') Delete
     [with_id (scenario_profile ''Al'') (js ''1''), with_id (scenario_profile ''Bo'') (js ''2'')]
     \<lparr>children_list = Some (Json [with_id (scenario_profile ''Al'') (js ''1''),
                                  with_id (scenario_profile ''Bo'') (js ''2'')]),
      child_profile = None\<rparr> =
     (\<lparr>children_list = Some (Json [with_id (scenario_profile ''Bo'') (js ''2'')]),
       child_profile = None\<rparr>,
      [with_id (scenario_profile ''Bo'') (js ''2'')],
      [delete_child_dialog (js ''Al''), SetItem ''children_list''])"
proof -
  let ?xs = "[with_id (scenario_profile ''Al'') (js ''1''),
              with_id (scenario_profile ''Bo'') (js ''2'')]"
  let ?s = "\<lparr>children_list = Some (Json ?xs), child_profile = None\<rparr>"
  have "handleDelete (Some (js ''1'')) Delete ?s =
     (\<lparr>children_list = Some (Json [with_id (scenario_profile ''Bo'') (js ''2'')]),
       child_profile = None\<rparr>,
      [delete_profile_dialog, SetItem ''children_list'',
       Alert (js ''Success'') (js ''Child profile deleted''), RouterBack])"
    using delete_removes_matching [of "js ''1''" ?s, THEN conjunct1]
    by (simp add: with_id_def js_def)
  moreover have "filter (\<lambda>c. ident c \<noteq> Some (js ''3'')) ?xs = ?xs"
    using delete_removes_matching [of "js ''3''" ?s ?xs,
        THEN conjunct2, THEN conjunct2, THEN conjunct2]
    by (simp add: with_id_def js_def)
  moreover have "handleDeleteChild (js ''1'') (js ''Al'') Delete ?xs ?s =
     (\<lparr>children_list = Some (Json [with_id (scenario_profile ''Bo'') (js ''2'')]),
       child_profile = None\<rparr>,
      [with_id (scenario_profile ''Bo'') (js ''2'')],
      [delete_child_dialog (js ''Al''), SetItem ''children_list''])"
    using delete_removes_matching [of "js ''1''" ?s ?xs "js ''Al''",
        THEN conjunct2, THEN conjunct1]
    by (simp add: with_id_def js_def)
  ultimately show ?thesis by simp
qed

lemma onSubmit_create:
  assumes "\<not> isEditMode rid" and "parse_or_empty (children_list s) = Some xs"
    and "\<not> truthy (child_profile s)"
  shows "onSubmit rid now later data s =
           (s\<lparr>children_list := Some (Json (xs @ [with_id data (Number_toString now)]))\<rparr>,
            [Alert (js ''Success'') (js ''Child profile saved!''),
             SetItem ''children_list'', RouterBack])"
  using assms by (simp add: onSubmit_def migrate_after_save_def Let_def)

lemma Number_toString_example: "Number_toString 1700000000000 = js ''1700000000000''"
  by (simp add: Number_toString.simps js_def)

text \<open>
  C1 at the failing input: the store is empty and the same profile is submitted twice
  while the clock reads 1700000000000 both times. The stored list then holds two records
  with the same identifier.
\<close>

theorem onSubmit_same_millisecond:
  "fst (onSubmit None 1700000000000 1700000000000 (scenario_profile ''Al'')
     (fst (onSubmit None 1700000000000 1700000000000 (scenario_profile ''Al'')
        \<lparr>children_list = None, child_profile = None\<rparr>))) =
     \<lparr>children_list =
        Some (Json [with_id (scenario_profile ''Al'') (js ''1700000000000''),
                    with_id (scenario_profile ''Al'') (js ''1700000000000'')]),
      child_profile = None\<rparr> \<and>
   \<not> distinct (map ident
        [with_id (scenario_profile ''Al'') (js ''1700000000000''),
         with_id (scenario_profile ''Al'') (js ''1700000000000'')])"
proof -
  let ?s0 = "\<lparr>children_list = None, child_profile = None\<rparr>"
  let ?c = "with_id (scenario_profile ''Al'') (js ''1700000000000'')"
  have first: "fst (onSubmit None 1700000000000 1700000000000 (scenario_profile ''Al'') ?s0) =
      \<lparr>children_list = Some (Json [?c]), child_profile = None\<rparr>"
    by (subst onSubmit_create [of _ _ "[]"])
      (simp_all add: isEditMode_def parse_or_empty_def truthy_def Number_toString_example)
  have "fst (onSubmit None 1700000000000 1700000000000 (scenario_profile ''Al'')
      \<lparr>children_list = Some (Json [?c]), child_profile = None\<rparr>) =
      \<lparr>children_list = Some (Json [?c, ?c]), child_profile = None\<rparr>"
    by (subst onSubmit_create [of _ _ "[?c]"])
      (simp_all add: isEditMode_def parse_or_empty_def truthy_def Number_toString_example)
  with first show ?thesis
    by simp
qed

section \<open>Coercion of empty numeric input\<close>

lemma StringToNumber_blank: "trim t = [] \<Longrightarrow> StringToNumber t = Fin 0"
  by (simp add: StringToNumber_def)

lemma ToNumber_empty: "ToNumber (Str []) = Fin 0"
  by (simp add: StringToNumber_blank trim_def)

lemma onSubmit_create_persists:
  assumes "parse_or_empty (children_list s) = Some xs"
  shows "\<exists>ys. children_list (fst (onSubmit None now later d s)) =
           Some (Json (xs @ with_id d (Number_toString now) # ys))"
  using assms
  by (auto simp: onSubmit_def migrate_after_save_def isEditMode_def Let_def
      split: option.splits stored.splits)

lemma numeric_field_undefined:
  "schema_age f Undefined = Inl [InvalidType]"
  "schema_height f Undefined = Inl [InvalidType]"
  "schema_weight f Undefined = Inl [InvalidType]"
  by (simp_all add: schema_age_def schema_height_def schema_weight_def z_coerce_number_nan)

text \<open>
  C9: the validator converts with \<open>Number\<close>, so the empty text is the number 0. An empty
  age therefore validates as 0 when the other fields are valid, and a create then stores
  the profile with age 0; an empty height or weight fails its lower bound; an absent
  (\<open>undefined\<close>) age, height or weight fails the conversion itself, with a type issue. Of
  the values that are neither text nor a number (\<open>undefined\<close>, \<open>null\<close>, the booleans) only
  \<open>undefined\<close> converts to \<open>NaN\<close>; a text does so exactly when it is not a numeric
  literal, and an empty or blank text is the number 0.
\<close>

theorem empty_numeric_input:
  "ToNumber (Str []) = Fin 0 \<and> ToNumber Undefined = NaN \<and>
   (raw_age raw = Str [] \<and> raw_fullName raw = Str n \<and> 2 \<le> length n \<and>
    ToNumber (raw_height raw) = Fin h \<and> 30 \<le> h \<and> h \<le> 250 \<and>
    ToNumber (raw_weight raw) = Fin w \<and> 2 \<le> w \<and>
    raw_gender raw = optional_text g \<and>
    raw_medicalNotes raw = optional_text m \<and>
    (case m of None \<Rightarrow> True | Some t \<Rightarrow> length t \<le> 300) \<and>
    parse_or_empty (children_list s) = Some xs
    \<longrightarrow> childSchema f raw =
          Inr \<lparr>fullName = n, age = Fin 0, height = Fin h, weight = Fin w, gender = g,
               medicalNotes = m\<rparr> \<and>
        (\<exists>s' ys. handleSubmit f (\<lambda>data. fst (onSubmit None now later data s)) raw = Inr s' \<and>
           children_list s' =
             Some (Json (xs @
               \<lparr>fullName = n, age = Fin 0, height = Fin h, weight = Fin w, gender = g,
                medicalNotes = m, ident = Some (Number_toString now)\<rparr> # ys)))) \<and>
   (raw_height raw = Str []
    \<longrightarrow> (\<exists>es. childSchema f raw = Inl es \<and>
              (Height, TooSmall (js ''Height (cm) seems too low'')) \<in> set es)) \<and>
   (raw_weight raw = Str []
    \<longrightarrow> (\<exists>es. childSchema f raw = Inl es \<and>
              (Weight, TooSmall (js ''Weight (kg) seems too low'')) \<in> set es)) \<and>
   (raw_age raw = Undefined
    \<longrightarrow> (\<exists>es. childSchema f raw = Inl es \<and> (Age, InvalidType) \<in> set es)) \<and>
   (raw_height raw = Undefined
    \<longrightarrow> (\<exists>es. childSchema f raw = Inl es \<and> (Height, InvalidType) \<in> set es)) \<and>
   (raw_weight raw = Undefined
    \<longrightarrow> (\<exists>es. childSchema f raw = Inl es \<and> (Weight, InvalidType) \<in> set es)) \<and>
   (\<forall>v. ToNumber v = NaN \<longleftrightarrow>
      v = Undefined \<or> v = Number NaN \<or> (\<exists>t. v = Str t \<and> StringToNumber t = NaN)) \<and>
   (\<forall>t. trim t = [] \<longrightarrow> StringToNumber t = Fin 0)"
proof (intro conjI impI allI; (elim conjE)?)
  show "ToNumber (Str []) = Fin 0"
    by (rule ToNumber_empty)
  show "ToNumber Undefined = NaN"
    by simp
next
  assume a: "raw_age raw = Str []" "raw_fullName raw = Str n" "2 \<le> length n"
    "ToNumber (raw_height raw) = Fin h" "30 \<le> h" "h \<le> 250"
    "ToNumber (raw_weight raw) = Fin w" "2 \<le> w"
    "raw_gender raw = optional_text g"
    "raw_medicalNotes raw = optional_text m"
    "case m of None \<Rightarrow> True | Some t \<Rightarrow> length t \<le> 300"
    and xs: "parse_or_empty (children_list s) = Some xs"
  let ?d = "\<lparr>fullName = n, age = Fin 0, height = Fin h, weight = Fin w, gender = g,
             medicalNotes = m\<rparr>"
  from a have "schema_age f (raw_age raw) = Inr (Fin 0)"
    using schema_age_ok [OF ToNumber_empty, of f] by simp
  with a show valid: "childSchema f raw = Inr ?d"
    by (intro childSchema_all_ok)
      (simp_all add: schema_fullName_ok schema_height_ok schema_weight_ok
        schema_gender_ok schema_medicalNotes_ok)
  from onSubmit_create_persists [OF xs, of now later ?d]
  obtain ys where "children_list (fst (onSubmit None now later ?d s)) =
      Some (Json (xs @ with_id ?d (Number_toString now) # ys))"
    by blast
  then show "\<exists>s' ys. handleSubmit f (\<lambda>data. fst (onSubmit None now later data s)) raw = Inr s' \<and>
           children_list s' =
             Some (Json (xs @
               \<lparr>fullName = n, age = Fin 0, height = Fin h, weight = Fin w, gender = g,
                medicalNotes = m, ident = Some (Number_toString now)\<rparr> # ys))"
    using valid by (simp add: handleSubmit_def with_id_def)
next
  assume "raw_height raw = Str []"
  then have "ToNumber (raw_height raw) = Fin 0"
    using ToNumber_empty by simp
  then obtain "is" where "schema_height f (raw_height raw) = Inl is"
    "TooSmall (js ''Height (cm) seems too low'') \<in> set is"
    unfolding schema_height_def
    using z_coerce_number_min [of "raw_height raw" 0 30]
    by (metis list.set_intros(1) zero_less_numeral)
  then show "\<exists>es. childSchema f raw = Inl es \<and>
      (Height, TooSmall (js ''Height (cm) seems too low'')) \<in> set es"
    by (intro childSchema_field_fails [of _ "is"]) simp_all
next
  assume "raw_weight raw = Str []"
  then have "ToNumber (raw_weight raw) = Fin 0"
    using ToNumber_empty by simp
  then obtain "is" where "schema_weight f (raw_weight raw) = Inl is"
    "TooSmall (js ''Weight (kg) seems too low'') \<in> set is"
    unfolding schema_weight_def
    using z_coerce_number_min [of "raw_weight raw" 0 2]
    by (metis list.set_intros(1) zero_less_numeral)
  then show "\<exists>es. childSchema f raw = Inl es \<and>
      (Weight, TooSmall (js ''Weight (kg) seems too low'')) \<in> set es"
    by (intro childSchema_field_fails [of _ "is"]) simp_all
next
  assume "raw_age raw = Undefined"
  then show "\<exists>es. childSchema f raw = Inl es \<and> (Age, InvalidType) \<in> set es"
    by (intro childSchema_field_fails [of _ "[InvalidType]"])
      (simp_all add: numeric_field_undefined)
next
  assume "raw_height raw = Undefined"
  then show "\<exists>es. childSchema f raw = Inl es \<and> (Height, InvalidType) \<in> set es"
    by (intro childSchema_field_fails [of _ "[InvalidType]"])
      (simp_all add: numeric_field_undefined)
next
  assume "raw_weight raw = Undefined"
  then show "\<exists>es. childSchema f raw = Inl es \<and> (Weight, InvalidType) \<in> set es"
    by (intro childSchema_field_fails [of _ "[InvalidType]"])
      (simp_all add: numeric_field_undefined)
next
  fix v
  show "ToNumber v = NaN \<longleftrightarrow>
      v = Undefined \<or> v = Number NaN \<or> (\<exists>t. v = Str t \<and> StringToNumber t = NaN)"
    by (cases v) auto
next
  fix t :: jsstring
  assume "trim t = []"
  then show "StringToNumber t = Fin 0"
    by (rule StringToNumber_blank)
qed

theorem empty_numeric_input_witness:
  "childSchema True (typed_form ''Al'' [] ''110'' ''18'') =
     Inr \<lparr>fullName = js ''Al'', age = Fin 0, height = Fin 110, weight = Fin 18,
          gender = Some [], medicalNotes = Some []\<rparr> \<and>
   (\<exists>s' ys. handleSubmit True
               (\<lambda>data. fst (onSubmit None 7 8 data
                  \<lparr>children_list = None, child_profile = None\<rparr>))
               (typed_form ''Al'' [] ''110'' ''18'') = Inr s' \<and>
      children_list s' =
        Some (Json ([] @
          \<lparr>fullName = js ''Al'', age = Fin 0, height = Fin 110, weight = Fin 18,
           gender = Some [], medicalNotes = Some [], ident = Some (Number_toString 7)\<rparr> # ys))) \<and>
   (\<exists>es. childSchema True (typed_form ''Al'' ''5'' [] ''18'') = Inl es \<and>
      (Height, TooSmall (js ''Height (cm) seems too low'')) \<in> set es) \<and>
   (\<exists>es. childSchema True ((typed_form ''Al'' ''5'' ''110'' ''18'')\<lparr>raw_weight := Undefined\<rparr>) =
           Inl es \<and>
      (Weight, InvalidType) \<in> set es)"
proof -
  let ?raw = "typed_form ''Al'' [] ''110'' ''18''"
  let ?s = "\<lparr>children_list = None, child_profile = None\<rparr>"
  note ok = empty_numeric_input [of ?raw "js ''Al''" 110 18 "Some []" "Some []" ?s "[]" True 7 8,
      THEN conjunct2, THEN conjunct2, THEN conjunct1]
  have hyp: "raw_age ?raw = Str [] \<and> raw_fullName ?raw = Str (js ''Al'') \<and>
      2 \<le> length (js ''Al'') \<and>
      ToNumber (raw_height ?raw) = Fin 110 \<and> (30::rat) \<le> 110 \<and> (110::rat) \<le> 250 \<and>
      ToNumber (raw_weight ?raw) = Fin 18 \<and> (2::rat) \<le> 18 \<and>
      raw_gender ?raw = optional_text (Some []) \<and>
      raw_medicalNotes ?raw = optional_text (Some []) \<and>
      (case Some ([]::jsstring) of None \<Rightarrow> True | Some t \<Rightarrow> length t \<le> 300) \<and>
      parse_or_empty (children_list ?s) = Some []"
    by (simp add: typed_form_def number_defs parse_or_empty_def)
  note a = ok [rule_format, OF hyp]
  have b: "\<exists>es. childSchema True (typed_form ''Al'' ''5'' [] ''18'') = Inl es \<and>
      (Height, TooSmall (js ''Height (cm) seems too low'')) \<in> set es"
    using empty_numeric_input [where raw = "typed_form ''Al'' ''5'' [] ''18''" and f = True,
        THEN conjunct2, THEN conjunct2, THEN conjunct2, THEN conjunct1]
    by (simp add: typed_form_def js_def)
  have c: "\<exists>es. childSchema True
        ((typed_form ''Al'' ''5'' ''110'' ''18'')\<lparr>raw_weight := Undefined\<rparr>) = Inl es \<and>
      (Weight, InvalidType) \<in> set es"
    using empty_numeric_input
      [where raw = "(typed_form ''Al'' ''5'' ''110'' ''18'')\<lparr>raw_weight := Undefined\<rparr>"
        and f = True,
        THEN conjunct2, THEN conjunct2, THEN conjunct2, THEN conjunct2, THEN conjunct2,
        THEN conjunct2, THEN conjunct2, THEN conjunct1]
    by simp
  from a b c show ?thesis
    by blast
qed

section \<open>Properties of the rendered artifacts\<close>

lemma or_else_sublist:
  "v = Some g \<Longrightarrow> g \<noteq> [] \<Longrightarrow> or_else (text_of v) d = g"
  by (simp add: or_else_def text_of_def)

text \<open>
  C10: \<open>buildPdfHtml\<close> puts the name, the gender and the medical notes into the document as
  they are. The document is the template with the name between its first two pieces; the
  name stands, unchanged, between the tags \<open><span class="value">\<close> and \<open></span>\<close>, and so
  does a non-empty gender; non-empty notes stand unchanged between \<open><p>\<close> and \<open></p>\<close>.
  Whatever these texts hold, markup included, is part of the document.
\<close>

theorem buildPdfHtml_verbatim:
  \<open>sublist (js ''<span class="value">'' @ pdf_fullName data @ js ''</span>'')
     (buildPdfHtml toStr data) \<and>
   (\<forall>g. pdf_gender data = Some g \<and> g \<noteq> [] \<longrightarrow>
      sublist (js ''<span class="value">'' @ g @ js ''</span>'') (buildPdfHtml toStr data)) \<and>
   (\<forall>m. pdf_medicalNotes data = Some m \<and> m \<noteq> [] \<longrightarrow>
      sublist (js ''<p>'' @ m @ js ''</p>'') (buildPdfHtml toStr data)) \<and>
   sublist (pdf_fullName data) (buildPdfHtml toStr data) \<and>
   sublist (text_of (pdf_gender data)) (buildPdfHtml toStr data) \<and>
   sublist (text_of (pdf_medicalNotes data)) (buildPdfHtml toStr data)\<close>
proof -
  obtain h0 where h0: \<open>html_head = h0 @ js ''<span class="value">''\<close>
    by (simp add: html_head_def js_def)
  obtain h1 where h1: \<open>html_after_fullName = js ''</span>'' @ h1\<close>
    by (simp add: html_after_fullName_def js_def)
  obtain h2 where h2: \<open>html_after_age = h2 @ js ''<span class="value">''\<close>
    by (simp add: html_after_age_def js_def)
  obtain h3 where h3: \<open>html_after_gender = js ''</span>'' @ h3\<close>
    by (simp add: html_after_gender_def js_def)
  obtain h5 where h5: \<open>html_after_weight = h5 @ js ''<p>''\<close>
    by (simp add: html_after_weight_def js_def)
  obtain h6 where h6: \<open>html_tail = js ''</p>'' @ h6\<close>
    by (simp add: html_tail_def js_def)
  let ?doc = "buildPdfHtml toStr data"
  have name_tag: \<open>sublist (js ''<span class="value">'' @ pdf_fullName data @ js ''</span>'') ?doc\<close>
  proof -
    have \<open>?doc = h0 @ (js ''<span class="value">'' @ pdf_fullName data @ js ''</span>'') @
        (h1 @ html_number toStr (pdf_age data) @
         html_after_age @ html_gender data @
         html_after_gender @ html_number toStr (pdf_height data) @
         html_after_height @ html_number toStr (pdf_weight data) @
         html_after_weight @ html_medicalNotes data @ html_tail)\<close>
      by (simp add: buildPdfHtml_def h0 h1)
    then show ?thesis
      by (metis sublist_appendI)
  qed
  have gender_tag: \<open>sublist (js ''<span class="value">'' @ html_gender data @ js ''</span>'') ?doc\<close>
  proof -
    have \<open>?doc = (html_head @ pdf_fullName data @
         html_after_fullName @ html_number toStr (pdf_age data) @ h2) @
        (js ''<span class="value">'' @ html_gender data @ js ''</span>'') @
        (h3 @ html_number toStr (pdf_height data) @
         html_after_height @ html_number toStr (pdf_weight data) @
         html_after_weight @ html_medicalNotes data @ html_tail)\<close>
      by (simp add: buildPdfHtml_def h2 h3)
    then show ?thesis
      by (metis sublist_appendI)
  qed
  have notes_tag: \<open>sublist (js ''<p>'' @ html_medicalNotes data @ js ''</p>'') ?doc\<close>
  proof -
    have \<open>?doc = (html_head @ pdf_fullName data @
         html_after_fullName @ html_number toStr (pdf_age data) @
         html_after_age @ html_gender data @
         html_after_gender @ html_number toStr (pdf_height data) @
         html_after_height @ html_number toStr (pdf_weight data) @ h5) @
        (js ''<p>'' @ html_medicalNotes data @ js ''</p>'') @ h6\<close>
      by (simp add: buildPdfHtml_def h5 h6)
    then show ?thesis
      by (metis sublist_appendI)
  qed
  have inner: "sublist b doc" if "sublist (a @ b @ c) doc" for a b c doc :: jsstring
    using that by (meson sublist_appendI sublist_order.order_trans)
  have g_some: \<open>sublist (js ''<span class="value">'' @ g @ js ''</span>'') ?doc\<close>
    if "pdf_gender data = Some g \<and> g \<noteq> []" for g
    using gender_tag that by (simp add: html_gender_def or_else_sublist)
  have m_some: \<open>sublist (js ''<p>'' @ m @ js ''</p>'') ?doc\<close>
    if "pdf_medicalNotes data = Some m \<and> m \<noteq> []" for m
    using notes_tag that by (simp add: html_medicalNotes_def or_else_sublist)
  have g_text: "sublist (text_of (pdf_gender data)) ?doc"
  proof (cases "text_of (pdf_gender data) = []")
    case True
    then show ?thesis by simp
  next
    case False
    then obtain g where "pdf_gender data = Some g" "g \<noteq> []"
      by (auto simp: text_of_def split: option.splits)
    with g_some [of g] inner show ?thesis
      by (auto simp: text_of_def)
  qed
  have m_text: "sublist (text_of (pdf_medicalNotes data)) ?doc"
  proof (cases "text_of (pdf_medicalNotes data) = []")
    case True
    then show ?thesis by simp
  next
    case False
    then obtain m where "pdf_medicalNotes data = Some m" "m \<noteq> []"
      by (auto simp: text_of_def split: option.splits)
    with m_some [of m] inner show ?thesis
      by (auto simp: text_of_def)
  qed
  from name_tag g_some m_some inner [OF name_tag] g_text m_text show ?thesis
    by blast
qed

theorem buildPdfHtml_verbatim_witness:
  \<open>\<forall>toStr.
     sublist (js ''<span class="value"><b>Al</b></span>'')
       (buildPdfHtml toStr
          \<lparr>pdf_fullName = js ''<b>Al</b>'', pdf_age = Some (Fin 5), pdf_height = Some (Fin 110),
           pdf_weight = Some (Fin 18), pdf_gender = Some (js ''<i>girl</i>''),
           pdf_medicalNotes = Some (js ''<script>alert(1)</script>'')\<rparr>) \<and>
     sublist (js ''<span class="value"><i>girl</i></span>'')
       (buildPdfHtml toStr
          \<lparr>pdf_fullName = js ''<b>Al</b>'', pdf_age = Some (Fin 5), pdf_height = Some (Fin 110),
           pdf_weight = Some (Fin 18), pdf_gender = Some (js ''<i>girl</i>''),
           pdf_medicalNotes = Some (js ''<script>alert(1)</script>'')\<rparr>) \<and>
     sublist (js ''<p><script>alert(1)</script></p>'')
       (buildPdfHtml toStr
          \<lparr>pdf_fullName = js ''<b>Al</b>'', pdf_age = Some (Fin 5), pdf_height = Some (Fin 110),
           pdf_weight = Some (Fin 18), pdf_gender = Some (js ''<i>girl</i>''),
           pdf_medicalNotes = Some (js ''<script>alert(1)</script>'')\<rparr>)\<close>
proof
  fix toStr
  let ?data = "\<lparr>pdf_fullName = js ''<b>Al</b>'', pdf_age = Some (Fin 5),
      pdf_height = Some (Fin 110), pdf_weight = Some (Fin 18),
      pdf_gender = Some (js ''<i>girl</i>''),
      pdf_medicalNotes = Some (js ''<script>alert(1)</script>'')\<rparr>"
  have ne: "js ''<i>girl</i>'' \<noteq> []" "js ''<script>alert(1)</script>'' \<noteq> []"
    by (simp_all add: js_def)
  note v = buildPdfHtml_verbatim [of ?data toStr]
  from v have \<open>sublist (js ''<span class="value">'' @ js ''<b>Al</b>'' @ js ''</span>'')
      (buildPdfHtml toStr ?data)\<close>
    by simp
  moreover from v ne have \<open>sublist (js ''<span class="value">'' @ js ''<i>girl</i>'' @ js ''</span>'')
      (buildPdfHtml toStr ?data)\<close>
    by simp
  moreover from v ne have \<open>sublist (js ''<p>'' @ js ''<script>alert(1)</script>'' @ js ''</p>'')
      (buildPdfHtml toStr ?data)\<close>
    by simp
  ultimately show \<open>sublist (js ''<span class="value"><b>Al</b></span>'')
       (buildPdfHtml toStr ?data) \<and>
     sublist (js ''<span class="value"><i>girl</i></span>'') (buildPdfHtml toStr ?data) \<and>
     sublist (js ''<p><script>alert(1)</script></p>'') (buildPdfHtml toStr ?data)\<close>
    by (simp add: js_def)
qed

text \<open>
  C5 at the failing input: the name of two spaces passes validation (it has 2 code units),
  and the gender is left empty. The card shows \<open>Name missing\<close> where the document has the
  two spaces, and the card's placeholder for the empty gender is not the document's.
\<close>

theorem card_and_document_differ:
  "childSchema f (typed_form ''  '' ''5'' ''110'' ''18'') =
     Inr \<lparr>fullName = js ''  '', age = Fin 5, height = Fin 110, weight = Fin 18,
          gender = Some [], medicalNotes = Some []\<rparr> \<and>
   card_name (Some \<lparr>fullName = js ''  '', age = Fin 5, height = Fin 110, weight = Fin 18,
                    gender = Some [], medicalNotes = Some []\<rparr>) = js ''Name missing'' \<and>
   pdf_fullName (as_PdfChildData \<lparr>fullName = js ''  '', age = Fin 5, height = Fin 110,
       weight = Fin 18, gender = Some [], medicalNotes = Some []\<rparr>) = js ''  '' \<and>
   card_gender (Some \<lparr>fullName = js ''  '', age = Fin 5, height = Fin 110, weight = Fin 18,
                      gender = Some [], medicalNotes = Some []\<rparr>) = [0xE2, 0x20AC, 0x201D] \<and>
   html_gender (as_PdfChildData \<lparr>fullName = js ''  '', age = Fin 5, height = Fin 110,
       weight = Fin 18, gender = Some [], medicalNotes = Some []\<rparr>) = [0x2014] \<and>
   captureCard toStr (Some \<lparr>fullName = js ''  '', age = Fin 5, height = Fin 110,
       weight = Fin 18, gender = Some [], medicalNotes = Some []\<rparr>) =
     View ''hiddenCapture''
       [View ''captureCard''
          [Text ''captureTitle'' (js ''Child Guard ID''),
           Text ''captureName'' (js ''Name missing''),
           View ''captureRow''
             [Text ''captureLabel'' (js ''Age''), Text ''captureValue'' (toStr (Fin 5))],
           View ''captureRow''
             [Text ''captureLabel'' (js ''Gender''),
              Text ''captureValue'' [0xE2, 0x20AC, 0x201D]],
           View ''captureRow''
             [Text ''captureLabel'' (js ''Height (cm)''), Text ''captureValue'' (toStr (Fin 110))],
           View ''captureRow''
             [Text ''captureLabel'' (js ''Weight (kg)''), Text ''captureValue'' (toStr (Fin 18))],
           Text ''captureSection'' (js ''Medical Notes''),
           Text ''captureNotes'' (js ''None provided'')]] \<and>
   buildPdfHtml toStr (as_PdfChildData \<lparr>fullName = js ''  '', age = Fin 5, height = Fin 110,
       weight = Fin 18, gender = Some [], medicalNotes = Some []\<rparr>) =
     html_head @ js ''  '' @ html_after_fullName @ toStr (Fin 5) @ html_after_age @ [0x2014] @
     html_after_gender @ toStr (Fin 110) @ html_after_height @ toStr (Fin 18) @
     html_after_weight @ js ''None provided'' @ html_tail"
proof -
  have valid: "childSchema f (typed_form ''  '' ''5'' ''110'' ''18'') =
     Inr \<lparr>fullName = js ''  '', age = Fin 5, height = Fin 110, weight = Fin 18,
          gender = Some [], medicalNotes = Some []\<rparr>"
    by (intro childSchema_all_ok)
      (simp_all add: typed_form_def schema_fullName_def schema_age_def schema_height_def
        schema_weight_def schema_gender_def schema_medicalNotes_def z_string_def
        z_optional_def z_coerce_number_def z_number_def number_defs)
  have name: "card_name (Some \<lparr>fullName = js ''  '', age = Fin 5, height = Fin 110,
      weight = Fin 18, gender = Some [], medicalNotes = Some []\<rparr>) = js ''Name missing''"
    by (simp add: card_name_def or_else_def text_of_def trim_def isWhiteSpace_def js_def)
  show ?thesis
    using valid name
    by (simp add: as_PdfChildData_def card_gender_def html_gender_def captureCard_def
        buildPdfHtml_def card_number_def card_medicalNotes_def html_medicalNotes_def
        html_number_def or_else_def text_of_def)
qed

section \<open>Properties of the export\<close>

lemma export_failed_saves_nothing: "e \<in> set export_failed \<Longrightarrow> \<not> writes_media_library e"
  by (auto simp: export_failed_def)

lemma capture_and_save_denied:
  assumes "permission_status p \<noteq> Some (js ''granted'')"
    and "e \<in> set (capture_and_save current p data)"
  shows "\<not> writes_media_library e"
  using assms
  by (auto simp: capture_and_save_def Let_def export_failed_def
      split: if_splits option.splits)

lemma takeWhile_all: "\<forall>x \<in> set xs. P x \<Longrightarrow> takeWhile P xs = xs"
  by simp

lemma capture_and_save_before_request:
  "e \<in> set (takeWhile (\<lambda>e. e \<noteq> RequestPermissions) (capture_and_save current p data)) \<Longrightarrow>
   \<not> writes_media_library e"
  by (auto simp: capture_and_save_def Let_def export_failed_def
      split: if_splits option.splits)

lemma capture_and_save_refused:
  assumes "capture_file p = Some shotUri" "permission_status p = Some status"
    "status \<noteq> js ''granted''"
  shows "capture_and_save True p data =
      [CaptureRef, RequestPermissions,
       Alert (js ''Permission needed'')
         (js ''Please allow photo library access to save the image.'')]"
  using assms by (simp add: capture_and_save_def)

text \<open>
  C4, as stated, fails: on the platform that refuses the permission, the export of the
  screen that builds the document prints the document to a file and captures the snapshot
  to a file before it requests the permission, and after the refusal it only shows the
  alert and resets its busy flag. Both files are written before the request and stay.
\<close>

theorem export_files_before_request:
  "\<forall>toStr.
     exportPdfAndImage_pdf toStr refusing_platform (scenario_profile ''Al'') =
       [SetIsExporting True, SetCaptureData (scenario_profile ''Al''),
        PrintToFile (buildPdfHtml toStr (as_PdfChildData (scenario_profile ''Al''))),
        CaptureRef, RequestPermissions,
        Alert (js ''Permission needed'')
          (js ''Please allow photo library access to save the image.''),
        SetIsExporting False] \<and>
     before_request
       (exportPdfAndImage_pdf toStr refusing_platform (scenario_profile ''Al'')) =
       [SetIsExporting True, SetCaptureData (scenario_profile ''Al''),
        PrintToFile (buildPdfHtml toStr (as_PdfChildData (scenario_profile ''Al''))),
        CaptureRef] \<and>
     list_ex writes_file
       (before_request
          (exportPdfAndImage_pdf toStr refusing_platform (scenario_profile ''Al'')))"
proof
  fix toStr
  have "js ''denied'' \<noteq> js ''granted''"
    by (simp add: js_def)
  then have c: "capture_and_save True refusing_platform (scenario_profile ''Al'') =
      [CaptureRef, RequestPermissions,
       Alert (js ''Permission needed'')
         (js ''Please allow photo library access to save the image.'')]"
    by (intro capture_and_save_refused) (simp_all add: refusing_platform_def)
  have t: "exportPdfAndImage_pdf toStr refusing_platform (scenario_profile ''Al'') =
       [SetIsExporting True, SetCaptureData (scenario_profile ''Al''),
        PrintToFile (buildPdfHtml toStr (as_PdfChildData (scenario_profile ''Al''))),
        CaptureRef, RequestPermissions,
        Alert (js ''Permission needed'')
          (js ''Please allow photo library access to save the image.''),
        SetIsExporting False]"
    using c by (simp add: exportPdfAndImage_pdf_def refusing_platform_def)
  show "exportPdfAndImage_pdf toStr refusing_platform (scenario_profile ''Al'') =
       [SetIsExporting True, SetCaptureData (scenario_profile ''Al''),
        PrintToFile (buildPdfHtml toStr (as_PdfChildData (scenario_profile ''Al''))),
        CaptureRef, RequestPermissions,
        Alert (js ''Permission needed'')
          (js ''Please allow photo library access to save the image.''),
        SetIsExporting False] \<and>
     before_request
       (exportPdfAndImage_pdf toStr refusing_platform (scenario_profile ''Al'')) =
       [SetIsExporting True, SetCaptureData (scenario_profile ''Al''),
        PrintToFile (buildPdfHtml toStr (as_PdfChildData (scenario_profile ''Al''))),
        CaptureRef] \<and>
     list_ex writes_file
       (before_request
          (exportPdfAndImage_pdf toStr refusing_platform (scenario_profile ''Al'')))"
    unfolding t by (simp add: before_request_def)
qed

text \<open>
  C4, amended: in both copies of the screen, an export in which the permission is not
  granted writes nothing to the media library: no asset is created and no album is
  created or extended. When the request is reached and answered with a status other than
  \<open>granted\<close>, the handler shows the alert \<open>Permission needed\<close> and then only resets its
  busy flag. In every export, nothing is written to the media library before the
  permission is requested.
\<close>

theorem export_permission_denied:
  "(permission_status p \<noteq> Some (js ''granted'') \<longrightarrow>
      (\<forall>e \<in> set (exportPdfAndImage p data). \<not> writes_media_library e) \<and>
      (\<forall>e \<in> set (exportPdfAndImage_pdf toStr p data). \<not> writes_media_library e)) \<and>
   (print_file p = Some pdf \<and> view_ready p \<and> capture_file p = Some shotUri \<and>
    permission_status p = Some status \<and> status \<noteq> js ''granted'' \<longrightarrow>
      from_request (exportPdfAndImage_pdf toStr p data) =
        [RequestPermissions,
         Alert (js ''Permission needed'')
           (js ''Please allow photo library access to save the image.''),
         SetIsExporting False]) \<and>
   (\<forall>e \<in> set (before_request (exportPdfAndImage p data)). \<not> writes_media_library e) \<and>
   (\<forall>e \<in> set (before_request (exportPdfAndImage_pdf toStr p data)).
      \<not> writes_media_library e)"
proof (intro conjI impI ballI; (elim conjE)?)
  fix e
  assume "permission_status p \<noteq> Some (js ''granted'')" "e \<in> set (exportPdfAndImage p data)"
  then show "\<not> writes_media_library e"
    using capture_and_save_denied [of p e False data]
    by (auto simp: exportPdfAndImage_def)
next
  fix e
  assume "permission_status p \<noteq> Some (js ''granted'')"
    "e \<in> set (exportPdfAndImage_pdf toStr p data)"
  then show "\<not> writes_media_library e"
    using capture_and_save_denied [of p e "view_ready p" data]
      export_failed_saves_nothing [of e]
    by (auto simp: exportPdfAndImage_pdf_def split: option.splits)
next
  assume a: "print_file p = Some pdf" "view_ready p" "capture_file p = Some shotUri"
    "permission_status p = Some status" "status \<noteq> js ''granted''"
  from capture_and_save_refused [OF a(3,4,5)] a(1,2)
  show "from_request (exportPdfAndImage_pdf toStr p data) =
        [RequestPermissions,
         Alert (js ''Permission needed'')
           (js ''Please allow photo library access to save the image.''),
         SetIsExporting False]"
    by (simp add: exportPdfAndImage_pdf_def from_request_def)
next
  fix e
  assume "e \<in> set (before_request (exportPdfAndImage p data))"
  then show "\<not> writes_media_library e"
    using capture_and_save_before_request [of e False p data]
    by (auto simp: exportPdfAndImage_def before_request_def takeWhile_append takeWhile_all
        split: if_splits)
next
  fix e
  assume "e \<in> set (before_request (exportPdfAndImage_pdf toStr p data))"
  then show "\<not> writes_media_library e"
    using capture_and_save_before_request [of e "view_ready p" p data]
      export_failed_saves_nothing [of e]
    by (auto simp: exportPdfAndImage_pdf_def before_request_def takeWhile_append takeWhile_all
        split: if_splits option.splits dest: set_takeWhileD)
qed

theorem export_permission_denied_witness:
  "\<forall>toStr.
     list_all (\<lambda>e. \<not> writes_media_library e)
       (exportPdfAndImage_pdf toStr refusing_platform (scenario_profile ''Al'')) \<and>
     list_all (\<lambda>e. \<not> writes_media_library e)
       (exportPdfAndImage refusing_platform (scenario_profile ''Al'')) \<and>
     from_request (exportPdfAndImage_pdf toStr refusing_platform (scenario_profile ''Al'')) =
       [RequestPermissions,
        Alert (js ''Permission needed'')
          (js ''Please allow photo library access to save the image.''),
        SetIsExporting False]"
proof
  fix toStr
  have denied: "js ''denied'' \<noteq> js ''granted''"
    by (simp add: js_def)
  have status: "permission_status refusing_platform \<noteq> Some (js ''granted'')"
    using denied by (simp add: refusing_platform_def)
  have hyp: "print_file refusing_platform = Some (js ''file:///cache/Print/card.pdf'') \<and>
      view_ready refusing_platform \<and>
      capture_file refusing_platform = Some (js ''file:///tmp/shot.png'') \<and>
      permission_status refusing_platform = Some (js ''denied'') \<and>
      js ''denied'' \<noteq> js ''granted''"
    using denied by (simp add: refusing_platform_def)
  note t = export_permission_denied [of refusing_platform "scenario_profile ''Al''" toStr
      "js ''file:///cache/Print/card.pdf''" "js ''file:///tmp/shot.png''" "js ''denied''"]
  from t [THEN conjunct1, rule_format, OF status]
  have "list_all (\<lambda>e. \<not> writes_media_library e)
       (exportPdfAndImage_pdf toStr refusing_platform (scenario_profile ''Al''))"
    and "list_all (\<lambda>e. \<not> writes_media_library e)
       (exportPdfAndImage refusing_platform (scenario_profile ''Al''))"
    unfolding list_all_iff by blast+
  moreover from t [THEN conjunct2, THEN conjunct1, rule_format, OF hyp]
  have "from_request (exportPdfAndImage_pdf toStr refusing_platform (scenario_profile ''Al'')) =
       [RequestPermissions,
        Alert (js ''Permission needed'')
          (js ''Please allow photo library access to save the image.''),
        SetIsExporting False]" .
  ultimately show "list_all (\<lambda>e. \<not> writes_media_library e)
       (exportPdfAndImage_pdf toStr refusing_platform (scenario_profile ''Al'')) \<and>
     list_all (\<lambda>e. \<not> writes_media_library e)
       (exportPdfAndImage refusing_platform (scenario_profile ''Al'')) \<and>
     from_request (exportPdfAndImage_pdf toStr refusing_platform (scenario_profile ''Al'')) =
       [RequestPermissions,
        Alert (js ''Permission needed'')
          (js ''Please allow photo library access to save the image.''),
        SetIsExporting False]"
    by simp
qed

end
